theory Spec2Isabelle
  imports Main "HOL-Library.Sublist" "HOL-Library.Code_Target_Nat"
begin

section \<open>Python strings\<close>

text \<open>
  A Python \<open>str\<close> is a sequence of Unicode code points and \<open>len\<close> counts code points,
  so a string is modelled as a list of code points. \<open>lit\<close> embeds an ASCII literal;
  a character outside ASCII is written as its code point.
\<close>

type_synonym pystr = "nat list"

definition lit :: "string \<Rightarrow> pystr" where
  "lit s = map of_char s"

text \<open>
  \<open>str.isspace\<close> on one code point, which is also the class \<open>\s\<close> of \<open>re\<close> on
  \<open>str\<close> patterns and the set that \<open>str.strip()\<close> and \<open>str.split()\<close> remove:
  the complete table of CPython 3.
\<close>

definition py_isspace :: "nat \<Rightarrow> bool" where
  "py_isspace c \<longleftrightarrow>
     (9 \<le> c \<and> c \<le> 13) \<or> (28 \<le> c \<and> c \<le> 32) \<or> c = 0x85 \<or> c = 0xA0 \<or> c = 0x1680 \<or>
     (0x2000 \<le> c \<and> c \<le> 0x200A) \<or> c = 0x2028 \<or> c = 0x2029 \<or> c = 0x202F \<or>
     c = 0x205F \<or> c = 0x3000"

definition py_strip :: "pystr \<Rightarrow> pystr" where
  "py_strip s = rev (dropWhile py_isspace (rev (dropWhile py_isspace s)))"

definition py_startswith :: "pystr \<Rightarrow> pystr \<Rightarrow> bool" where
  "py_startswith s p = prefix p s"

definition py_endswith :: "pystr \<Rightarrow> pystr \<Rightarrow> bool" where
  "py_endswith s p = suffix p s"

text \<open>\<open>p in s\<close> on strings: \<open>p\<close> occurs in \<open>s\<close> as a contiguous substring.\<close>

fun py_in :: "pystr \<Rightarrow> pystr \<Rightarrow> bool" where
  "py_in p [] = (p = [])"
| "py_in p (c # cs) = (prefix p (c # cs) \<or> py_in p cs)"

text \<open>
  \<open>str.lower()\<close> and the class \<open>\w\<close> of \<open>re\<close> are given by the Unicode tables of
  the Python runtime, which are not part of the repository. \<open>str.lower()\<close> maps a
  string to a string (one code point may become two, and a capital sigma is lowered by
  its position in the word); \<open>\w\<close> is a property of one code point. Every function
  that calls them takes them from a \<open>py_runtime\<close>, and a property with a
  \<open>py_runtime\<close> in it holds for every runtime, Python's own among them.
\<close>

record py_runtime =
  str_lower :: "pystr \<Rightarrow> pystr"
  re_w :: "nat \<Rightarrow> bool"

text \<open>
  The slice \<open>s[:k]\<close>: a negative \<open>k\<close> counts from the end, and a \<open>k\<close> beyond either
  end is clipped.
\<close>

definition py_slice_to :: "int \<Rightarrow> 'a list \<Rightarrow> 'a list" where
  "py_slice_to k s = (if 0 \<le> k then take (nat k) s else take (length s - nat (- k)) s)"

text \<open>The slice \<open>s[1:]\<close>.\<close>

definition py_slice_from1 :: "'a list \<Rightarrow> 'a list" where
  "py_slice_from1 s = drop 1 s"

text \<open>\<open>sep.join(xs)\<close>.\<close>

fun py_join :: "pystr \<Rightarrow> pystr list \<Rightarrow> pystr" where
  "py_join sep [] = []"
| "py_join sep [x] = x"
| "py_join sep (x # y # ys) = x @ sep @ py_join sep (y # ys)"

subsection \<open>The regular expressions of \<open>NoteProcessor\<close>\<close>

definition sentence_end :: "nat \<Rightarrow> bool" where
  "sentence_end c \<longleftrightarrow> c = 46 \<or> c = 33 \<or> c = 63 \<or> c = 10"

text \<open>
  \<open>re.split(r'[.!?\n]+', s)\<close>: the pieces of \<open>s\<close> between the maximal runs of
  \<open>.\<close>, \<open>!\<close>, \<open>?\<close> and newline. A run at the start or at the end leaves an empty
  piece there, and a string with no run is the only piece.
\<close>

function re_split_sentences :: "pystr \<Rightarrow> pystr list" where
  "re_split_sentences s =
     (let piece = takeWhile (\<lambda>c. \<not> sentence_end c) s;
          rest = dropWhile (\<lambda>c. \<not> sentence_end c) s
      in if rest = [] then [piece]
         else piece # re_split_sentences (dropWhile sentence_end rest))"
  by pat_completeness auto
termination
proof (relation "measure length")
  show "wf (measure length)" by simp
next
  fix s :: pystr and piece rest
  assume r: "rest = dropWhile (\<lambda>c. \<not> sentence_end c) s" and ne: "rest \<noteq> []"
  from ne obtain c cs where rc: "rest = c # cs" by (cases rest) auto
  have "sentence_end c" using r rc by (metis hd_dropWhile list.sel(1) ne)
  then have "length (dropWhile sentence_end rest) \<le> length cs"
    using rc by (simp add: length_dropWhile_le)
  also have "length cs < length rest" using rc by simp
  also have "length rest \<le> length s" using r by (simp add: length_dropWhile_le)
  finally show "(dropWhile sentence_end rest, s) \<in> measure length" by simp
qed

declare re_split_sentences.simps [simp del]

text \<open>
  \<open>re.sub(r'\s+', ' ', s)\<close>: every maximal run of whitespace becomes one space.
\<close>

function re_sub_spaces :: "pystr \<Rightarrow> pystr" where
  "re_sub_spaces [] = []"
| "re_sub_spaces (c # cs) =
     (if py_isspace c then 32 # re_sub_spaces (dropWhile py_isspace cs)
      else c # re_sub_spaces cs)"
  by pat_completeness auto
termination
  by (relation "measure length") (auto simp: length_dropWhile_le le_imp_less_Suc)

text \<open>
  \<open>re.findall(r'#\w+', s)\<close>, given the class \<open>\w\<close>: scanning from the left, each
  \<open>#\<close> that is followed by a word character matches together with the whole run of
  word characters after it, and the scan goes on behind the match.
\<close>

function re_findall_hashtags :: "(nat \<Rightarrow> bool) \<Rightarrow> pystr \<Rightarrow> pystr list" where
  "re_findall_hashtags w [] = []"
| "re_findall_hashtags w (c # cs) =
     (if c = 35 \<and> takeWhile w cs \<noteq> []
      then (c # takeWhile w cs) # re_findall_hashtags w (dropWhile w cs)
      else re_findall_hashtags w cs)"
  by pat_completeness auto
termination
  by (relation "measure (\<lambda>(w, s). length s)") (auto simp: length_dropWhile_le le_imp_less_Suc)

section \<open>\<open>NoteProcessor\<close>: the heuristic structurer of the rules-based variant\<close>

definition generate_title :: "pystr \<Rightarrow> int \<Rightarrow> pystr" where
  "generate_title content max_length =
     (if content = [] \<or> py_startswith content (lit ''Error:'') then lit ''Untitled Screenshot''
      else
        let sentences = re_split_sentences (py_strip content);
            first_sentence =
              (if sentences \<noteq> [] then py_strip (hd sentences)
               else py_slice_to max_length content);
            title = re_sub_spaces first_sentence;
            title =
              (if int (length title) > max_length
               then py_slice_to (max_length - 3) title @ lit ''...''
               else title)
        in if title \<noteq> [] then title else lit ''Screenshot Note'')"

text \<open>
  The value of the local \<open>title\<close> before it is truncated: the content up to the first
  \<open>.\<close>, \<open>!\<close>, \<open>?\<close> or newline, stripped, with every run of whitespace collapsed.
\<close>

definition collapsed_first_sentence :: "pystr \<Rightarrow> pystr" where
  "collapsed_first_sentence content =
     re_sub_spaces (py_strip (takeWhile (\<lambda>c. \<not> sentence_end c) (py_strip content)))"

text \<open>The default of the parameter \<open>max_length\<close>.\<close>

definition default_max_length :: int where
  "default_max_length = 50"

text \<open>
  The table \<open>tag_patterns\<close>, in the order the dictionary is written, which is the order
  the loop visits it in.
\<close>

definition tag_patterns :: "(pystr \<times> pystr list) list" where
  "tag_patterns =
     [(lit ''email'', [lit ''email'', lit ''@'', lit ''mail'', lit ''inbox'']),
      (lit ''auth'', [lit ''password'', lit ''login'', lit ''auth'', lit ''signin'', lit ''signup'']),
      (lit ''code'', [lit ''code'', lit ''programming'', lit ''function'', lit ''class'',
                      lit ''def '', lit ''var '', lit ''const '', lit ''{'', lit ''}'']),
      (lit ''meeting'', [lit ''meeting'', lit ''call'', lit ''zoom'', lit ''teams'', lit ''conference'']),
      (lit ''todo'', [lit ''todo'', lit ''task'', lit ''deadline'', [0x2610], [0x25A1], lit ''checklist'']),
      (lit ''finance'', [lit ''invoice'', lit ''payment'', lit ''bill'', lit ''$'', [0x20AC], [0x20BD],
                         lit ''price'', lit ''cost'']),
      (lit ''error'', [lit ''error'', lit ''exception'', lit ''bug'', lit ''failed'', lit ''warning'']),
      (lit ''document'', [lit ''document'', lit ''report'', lit ''pdf'', lit ''doc'', lit ''file'']),
      (lit ''web'', [lit ''http'', lit ''www'', lit ''url'', lit ''website'', lit ''browser'']),
      (lit ''mobile'', [lit ''phone'', lit ''mobile'', lit ''app'', lit ''android'', lit ''ios'']),
      (lit ''social'', [lit ''facebook'', lit ''twitter'', lit ''instagram'', lit ''telegram'',
                        lit ''whatsapp'']),
      (lit ''date'', [lit ''today'', lit ''tomorrow'', lit ''yesterday'', lit ''2024'', lit ''2025'',
                      lit ''january'', lit ''february''])]"

text \<open>
  \<open>list(set(tags))\<close> keeps one copy of every element, in an order that Python does not
  fix (it follows the hashes of the strings). The model keeps the order of \<open>remdups\<close>,
  and no theorem below depends on the order of the result.
\<close>

definition list_of_set :: "'a list \<Rightarrow> 'a list" where
  "list_of_set xs = remdups xs"

definition extract_tags :: "py_runtime \<Rightarrow> pystr \<Rightarrow> pystr list" where
  "extract_tags U content =
     (if content = [] \<or> py_startswith content (lit ''Error:'') then []
      else
        let content_lower = str_lower U content;
            tags = map fst (filter (\<lambda>(tag, patterns).
                                     list_ex (\<lambda>pattern. py_in pattern content_lower) patterns)
                                   tag_patterns);
            hashtags = re_findall_hashtags (re_w U) content;
            tags = tags @ map (\<lambda>tag. str_lower U (py_slice_from1 tag)) hashtags
        in list_of_set tags)"

section \<open>Exceptions and JSON values\<close>

text \<open>
  The exception classes that the handlers of the three bots tell apart.
  \<open>HTTPError\<close> carries the status code of its response (\<open>None\<close> when it has no
  response). \<open>RequestException\<close> stands for every other exception of \<open>requests\<close>
  (connection errors, timeouts, and the \<open>JSONDecodeError\<close> of newer versions of
  \<open>requests\<close>, which is a \<open>RequestException\<close> too); \<open>JSONDecodeError\<close> is the one of
  the module \<open>json\<close>. The remaining ones only meet \<open>except Exception\<close>.
\<close>

datatype py_exception =
    HTTPError "nat option"
  | RequestException
  | JSONDecodeError
  | TypeError
  | KeyError
  | AttributeError
  | OtherException

text \<open>
  What \<open>json.loads\<close> and \<open>response.json()\<close> return. An object is the list of its
  items in order, with distinct keys. A number is modelled by an integer: the code only
  tests whether it is zero and otherwise fails on it with a type error.
\<close>

datatype json =
    JNull
  | JBool bool
  | JNum int
  | JStr pystr
  | JArr "json list"
  | JObj "(pystr \<times> json) list"

text \<open>Sequencing of steps that may raise.\<close>

definition bind_exc :: "py_exception + 'a \<Rightarrow> ('a \<Rightarrow> py_exception + 'b) \<Rightarrow> py_exception + 'b" where
  "bind_exc m f = (case m of Inl e \<Rightarrow> Inl e | Inr x \<Rightarrow> f x)"

text \<open>The truth value of an object, as \<open>if x:\<close> and \<open>not x\<close> take it.\<close>

fun py_truthy :: "json \<Rightarrow> bool" where
  "py_truthy JNull = False"
| "py_truthy (JBool b) = b"
| "py_truthy (JNum n) = (n \<noteq> 0)"
| "py_truthy (JStr s) = (s \<noteq> [])"
| "py_truthy (JArr xs) = (xs \<noteq> [])"
| "py_truthy (JObj kvs) = (kvs \<noteq> [])"

text \<open>\<open>k in x\<close> for a string \<open>k\<close>: a key of a dict, an element of a list, a substring.\<close>

fun py_contains :: "pystr \<Rightarrow> json \<Rightarrow> py_exception + bool" where
  "py_contains k (JObj kvs) = Inr (k \<in> set (map fst kvs))"
| "py_contains k (JArr xs) = Inr (JStr k \<in> set xs)"
| "py_contains k (JStr s) = Inr (py_in k s)"
| "py_contains k _ = Inl TypeError"

text \<open>\<open>x[k]\<close> for a string \<open>k\<close>.\<close>

fun py_getitem :: "json \<Rightarrow> pystr \<Rightarrow> py_exception + json" where
  "py_getitem (JObj kvs) k = (case map_of kvs k of Some v \<Rightarrow> Inr v | None \<Rightarrow> Inl KeyError)"
| "py_getitem _ k = Inl TypeError"

text \<open>\<open>x.get(k, default)\<close>: only a dict has the method.\<close>

fun py_get :: "json \<Rightarrow> pystr \<Rightarrow> json \<Rightarrow> py_exception + json" where
  "py_get (JObj kvs) k d = Inr (case map_of kvs k of Some v \<Rightarrow> v | None \<Rightarrow> d)"
| "py_get _ k d = Inl AttributeError"

text \<open>
  \<open>for x in v\<close>: the elements of a list, the keys of a dict, the characters of a string.
\<close>

fun py_iter :: "json \<Rightarrow> py_exception + json list" where
  "py_iter (JArr xs) = Inr xs"
| "py_iter (JObj kvs) = Inr (map (\<lambda>kv. JStr (fst kv)) kvs)"
| "py_iter (JStr s) = Inr (map (\<lambda>c. JStr [c]) s)"
| "py_iter _ = Inl TypeError"

text \<open>\<open>x.strip()\<close>: only a string has the method.\<close>

fun py_strip_obj :: "json \<Rightarrow> py_exception + pystr" where
  "py_strip_obj (JStr s) = Inr (py_strip s)"
| "py_strip_obj _ = Inl AttributeError"

text \<open>\<open>sep.join(xs)\<close> on a list of objects: every one must be a string.\<close>

fun py_strings :: "json list \<Rightarrow> py_exception + pystr list" where
  "py_strings [] = Inr []"
| "py_strings (JStr s # xs) = bind_exc (py_strings xs) (\<lambda>ss. Inr (s # ss))"
| "py_strings (_ # xs) = Inl TypeError"

definition py_join_obj :: "pystr \<Rightarrow> json list \<Rightarrow> py_exception + pystr" where
  "py_join_obj sep xs = bind_exc (py_strings xs) (\<lambda>ss. Inr (py_join sep ss))"

section \<open>\<open>YandexVisionOCR\<close>: the extractor of the rules-based variant\<close>

text \<open>
  What \<open>requests.post\<close> does is the environment's choice: it raises, or it returns a
  response with a status code, whose \<open>json()\<close> raises or returns the parsed body.
\<close>

datatype http_result =
    Raised py_exception
  | Response nat "py_exception + json"

text \<open>
  The two nested iterations over \<open>blocks\<close> and \<open>lines\<close>, which append every non-empty
  \<open>line_text\<close> to \<open>text_blocks\<close>; a malformed block or line raises and ends both.
\<close>

fun collect_lines :: "json list \<Rightarrow> py_exception + json list" where
  "collect_lines [] = Inr []"
| "collect_lines (line # lines) =
     bind_exc (py_get line (lit ''text'') (JStr [])) (\<lambda>line_text.
     bind_exc (collect_lines lines) (\<lambda>more.
       Inr (if py_truthy line_text then line_text # more else more)))"

fun collect_blocks :: "json list \<Rightarrow> py_exception + json list" where
  "collect_blocks [] = Inr []"
| "collect_blocks (block # blocks) =
     bind_exc (py_get block (lit ''lines'') (JArr [])) (\<lambda>lines.
     bind_exc (py_iter lines) (\<lambda>lines.
     bind_exc (collect_lines lines) (\<lambda>text_blocks.
     bind_exc (collect_blocks blocks) (\<lambda>more.
       Inr (text_blocks @ more)))))"

text \<open>
  The body of the \<open>try\<close> after \<open>result = response.json()\<close>: the text of the response,
  or the exception that reading it raises.
\<close>

definition text_of_annotation :: "json \<Rightarrow> py_exception + pystr" where
  "text_of_annotation text_annotation =
     bind_exc (py_get text_annotation (lit ''fullText'') (JStr [])) (\<lambda>full_text.
       if py_truthy full_text then py_strip_obj full_text
       else
         bind_exc (py_get text_annotation (lit ''blocks'') (JArr [])) (\<lambda>blocks.
         bind_exc (py_iter blocks) (\<lambda>blocks.
         bind_exc (collect_blocks blocks) (\<lambda>text_blocks.
         bind_exc (py_join_obj [10] text_blocks) (\<lambda>combined_text.
           Inr (if combined_text \<noteq> [] then py_strip combined_text else []))))))"

definition text_of_result :: "json \<Rightarrow> py_exception + pystr" where
  "text_of_result result =
     bind_exc (py_contains (lit ''result'') result) (\<lambda>has_result.
       if \<not> has_result then Inr []
       else
         bind_exc (py_getitem result (lit ''result'')) (\<lambda>r.
         bind_exc (py_contains (lit ''textAnnotation'') r) (\<lambda>has_annotation.
           if \<not> has_annotation then Inr []
           else bind_exc (py_getitem r (lit ''textAnnotation'')) text_of_annotation)))"

text \<open>The \<open>except\<close> clauses, in the order they are written.\<close>

fun ocr_except :: "py_exception \<Rightarrow> pystr" where
  "ocr_except (HTTPError response) =
     (case response of
        Some status \<Rightarrow>
          if status = 401 then lit ''Error: Authentication failed. Please check your IAM token.''
          else if status = 403 then lit ''Error: Access denied. Please check your folder permissions.''
          else lit ''Error: Failed to process image with OCR service.''
      | None \<Rightarrow> lit ''Error: Failed to process image with OCR service.'')"
| "ocr_except RequestException = lit ''Error: Network error while processing image.''"
| "ocr_except JSONDecodeError = lit ''Error: Invalid response from OCR service.''"
| "ocr_except _ = lit ''Error: Unexpected error during text extraction.''"

text \<open>
  \<open>response.raise_for_status()\<close> raises an \<open>HTTPError\<close> holding the response for a
  status from 400 to 599.
\<close>

definition raise_for_status :: "nat \<Rightarrow> py_exception + unit" where
  "raise_for_status status =
     (if 400 \<le> status \<and> status < 600 then Inl (HTTPError (Some status)) else Inr ())"

definition ocr_extract_text_from_image :: "http_result \<Rightarrow> pystr" where
  "ocr_extract_text_from_image post =
     (case post of
        Raised e \<Rightarrow> ocr_except e
      | Response status_code body \<Rightarrow>
          if status_code = 401 then lit ''Error: IAM token expired. Please refresh your token.''
          else
            (case bind_exc (raise_for_status status_code) (\<lambda>_.
                    bind_exc body text_of_result) of
               Inl e \<Rightarrow> ocr_except e
             | Inr text \<Rightarrow> text))"

section \<open>The vision-API variant: extraction and keyword heuristics\<close>

text \<open>
  \<open>text_detection\<close> raises, or returns a response whose \<open>text_annotations\<close> are given
  here by their \<open>description\<close>s. The code catches every exception alike; the classes
  named are those of the client library for a rejected credential, a refused permission
  and an unreachable or slow service.
\<close>

datatype vision_exception =
    Unauthenticated
  | PermissionDenied
  | ServiceUnavailable
  | DeadlineExceeded
  | OtherVisionException

datatype vision_result =
    VisionRaised vision_exception
  | TextAnnotations "pystr list"

definition vision_extract_text_from_image :: "vision_result \<Rightarrow> pystr" where
  "vision_extract_text_from_image r =
     (case r of
        VisionRaised e \<Rightarrow> []
      | TextAnnotations ds \<Rightarrow> (case ds of [] \<Rightarrow> [] | d # _ \<Rightarrow> d))"

text \<open>\<open>s.split('\n')\<close>: the pieces between the newlines, at least one.\<close>

function py_split_lines :: "pystr \<Rightarrow> pystr list" where
  "py_split_lines s =
     (let piece = takeWhile (\<lambda>c. c \<noteq> 10) s; rest = dropWhile (\<lambda>c. c \<noteq> 10) s
      in if rest = [] then [piece] else piece # py_split_lines (tl rest))"
  by pat_completeness auto
termination
proof (relation "measure length")
  show "wf (measure length)" by simp
next
  fix s :: pystr and piece rest
  assume r: "rest = dropWhile (\<lambda>c. c \<noteq> 10) s" and ne: "rest \<noteq> []"
  have "length (tl rest) < length rest" using ne by (cases rest) auto
  also have "length rest \<le> length s" using r by (simp add: length_dropWhile_le)
  finally show "(tl rest, s) \<in> measure length" by simp
qed

declare py_split_lines.simps [simp del]

text \<open>\<open>s.split()\<close>: the maximal runs of characters that are not whitespace.\<close>

function py_split_words :: "pystr \<Rightarrow> pystr list" where
  "py_split_words s =
     (let s' = dropWhile py_isspace s
      in if s' = [] then []
         else takeWhile (\<lambda>c. \<not> py_isspace c) s' #
              py_split_words (dropWhile (\<lambda>c. \<not> py_isspace c) s'))"
  by pat_completeness auto
termination
proof (relation "measure length")
  show "wf (measure length)" by simp
next
  fix s s' :: pystr
  assume r: "s' = dropWhile py_isspace s" and ne: "s' \<noteq> []"
  from ne obtain c cs where rc: "s' = c # cs" by (cases s') auto
  have "\<not> py_isspace c" using r rc by (metis hd_dropWhile list.sel(1) ne)
  then have "length (dropWhile (\<lambda>c. \<not> py_isspace c) s') \<le> length cs"
    using rc by (simp add: length_dropWhile_le)
  also have "length cs < length s'" using rc by simp
  also have "length s' \<le> length s" using r by (simp add: length_dropWhile_le)
  finally show "(dropWhile (\<lambda>c. \<not> py_isspace c) s', s) \<in> measure length" by simp
qed

declare py_split_words.simps [simp del]

text \<open>
  The table \<open>topics\<close>. The Russian topics and keywords are written as code points; the
  topics are, in order: ACID, database, code, settings, error, lesson, chat, document,
  site, money.
\<close>

definition topics :: "(pystr \<times> pystr list) list" where
  "topics =
     [(lit ''ACID'',
       [lit ''acid'',
        [0x430, 0x442, 0x43E, 0x43C, 0x430, 0x440, 0x43D, 0x43E, 0x441, 0x442, 0x44C],
        lit ''consistency'',
        lit ''isolation'']),
      ([0x411, 0x430, 0x437, 0x430, 0x20, 0x434, 0x430, 0x43D, 0x43D, 0x44B, 0x445],
       [[0x431, 0x430, 0x437, 0x430, 0x20, 0x434, 0x430, 0x43D, 0x43D, 0x44B, 0x445],
        lit ''database'',
        lit ''sql'',
        [0x442, 0x430, 0x431, 0x43B, 0x438, 0x446, 0x430]]),
      ([0x41A, 0x43E, 0x434],
       [lit ''def '',
        lit ''function'',
        lit ''import'',
        lit ''class '',
        [0x43A, 0x43E, 0x434]]),
      ([0x41D, 0x430, 0x441, 0x442, 0x440, 0x43E, 0x439, 0x43A, 0x438],
       [[0x43D, 0x430, 0x441, 0x442, 0x440, 0x43E, 0x439, 0x43A, 0x438],
        lit ''settings'',
        [0x43A, 0x43E, 0x43D, 0x444, 0x438, 0x433, 0x443, 0x440, 0x430, 0x446, 0x438, 0x44F]]),
      ([0x41E, 0x448, 0x438, 0x431, 0x43A, 0x430],
       [lit ''error'',
        lit ''exception'',
        [0x43E, 0x448, 0x438, 0x431, 0x43A, 0x430],
        lit ''failed'']),
      ([0x423, 0x440, 0x43E, 0x43A],
       [[0x443, 0x440, 0x43E, 0x43A],
        lit ''tutorial'',
        [0x433, 0x430, 0x439, 0x434],
        [0x43E, 0x431, 0x443, 0x447, 0x435, 0x43D, 0x438, 0x435]]),
      ([0x427, 0x430, 0x442],
       [[0x447, 0x430, 0x442],
        [0x441, 0x43E, 0x43E, 0x431, 0x449, 0x435, 0x43D, 0x438, 0x435],
        lit ''message'',
        [0x434, 0x438, 0x430, 0x43B, 0x43E, 0x433]]),
      ([0x414, 0x43E, 0x43A, 0x443, 0x43C, 0x435, 0x43D, 0x442],
       [[0x434, 0x43E, 0x43A, 0x443, 0x43C, 0x435, 0x43D, 0x442],
        [0x441, 0x442, 0x430, 0x442, 0x44C, 0x44F],
        lit ''document'']),
      ([0x421, 0x430, 0x439, 0x442],
       [lit ''http'',
        lit ''www'',
        [0x441, 0x430, 0x439, 0x442],
        lit ''website'']),
      ([0x414, 0x435, 0x43D, 0x44C, 0x433, 0x438],
       [[0x440, 0x443, 0x431, 0x43B, 0x44C],
        [0x434, 0x435, 0x43D, 0x44C, 0x433, 0x438],
        [0x446, 0x435, 0x43D, 0x430],
        lit ''$'',
        [0x20AC],
        [0x20BD]])]"

text \<open>The Russian word for a screenshot, the default title.\<close>

definition default_title_ru :: pystr where
  "default_title_ru = [0x421, 0x43A, 0x440, 0x438, 0x43D, 0x448, 0x43E, 0x442]"

definition generate_title_from_text :: "py_runtime \<Rightarrow> pystr \<Rightarrow> pystr" where
  "generate_title_from_text U text =
     (if text = [] then default_title_ru
      else
        let text_lower = str_lower U text in
        case find (\<lambda>(topic, keywords). list_ex (\<lambda>keyword. py_in keyword text_lower) keywords) topics of
          Some (topic, keywords) \<Rightarrow> topic
        | None \<Rightarrow>
            let lines = py_split_lines text in
            if lines \<noteq> [] then
              let first_line = py_strip (hd lines);
                  words = take 3 (py_split_words first_line)
              in if words \<noteq> [] then
                   let title = py_join [32] words
                   in if length title \<le> 30 then title else hd words
                 else default_title_ru
            else default_title_ru)"

text \<open>The table \<open>tag_keywords\<close>, in the order it is written.\<close>

definition tag_keywords :: "(pystr \<times> pystr list) list" where
  "tag_keywords =
     [(lit ''code'',
       [lit ''def '',
        lit ''function'',
        lit ''import'',
        lit ''class '',
        [0x43A, 0x43E, 0x434],
        [0x43F, 0x440, 0x43E, 0x433, 0x440, 0x430, 0x43C, 0x43C, 0x430]]),
      (lit ''database'',
       [lit ''database'',
        lit ''sql'',
        [0x431, 0x430, 0x437, 0x430, 0x20, 0x434, 0x430, 0x43D, 0x43D, 0x44B, 0x445],
        [0x442, 0x430, 0x431, 0x43B, 0x438, 0x446, 0x430],
        lit ''acid'']),
      (lit ''email'',
       [lit ''@'',
        lit ''email'',
        [0x43F, 0x43E, 0x447, 0x442, 0x430],
        [0x43F, 0x438, 0x441, 0x44C, 0x43C, 0x43E]]),
      (lit ''web'',
       [lit ''http'',
        lit ''www'',
        [0x441, 0x430, 0x439, 0x442],
        lit ''website'']),
      (lit ''document'',
       [[0x434, 0x43E, 0x43A, 0x443, 0x43C, 0x435, 0x43D, 0x442],
        [0x441, 0x442, 0x430, 0x442, 0x44C, 0x44F],
        lit ''document'']),
      (lit ''chat'',
       [[0x447, 0x430, 0x442],
        [0x441, 0x43E, 0x43E, 0x431, 0x449, 0x435, 0x43D, 0x438, 0x435],
        lit ''message'',
        [0x434, 0x438, 0x430, 0x43B, 0x43E, 0x433]]),
      (lit ''settings'',
       [[0x43D, 0x430, 0x441, 0x442, 0x440, 0x43E, 0x439, 0x43A, 0x438],
        lit ''settings'',
        [0x43A, 0x43E, 0x43D, 0x444, 0x438, 0x433, 0x443, 0x440, 0x430, 0x446, 0x438, 0x44F]]),
      (lit ''error'',
       [lit ''error'',
        [0x43E, 0x448, 0x438, 0x431, 0x43A, 0x430],
        lit ''exception'',
        lit ''failed'']),
      (lit ''tutorial'',
       [[0x443, 0x440, 0x43E, 0x43A],
        lit ''tutorial'',
        [0x433, 0x430, 0x439, 0x434],
        [0x43E, 0x431, 0x443, 0x447, 0x435, 0x43D, 0x438, 0x435]]),
      (lit ''financial'',
       [[0x440, 0x443, 0x431, 0x43B, 0x44C],
        [0x434, 0x435, 0x43D, 0x44C, 0x433, 0x438],
        [0x446, 0x435, 0x43D, 0x430],
        lit ''$'',
        [0x20AC],
        [0x20BD]]),
      (lit ''education'',
       [[0x448, 0x43A, 0x43E, 0x43B, 0x430],
        [0x443, 0x43D, 0x438, 0x432, 0x435, 0x440, 0x441, 0x438, 0x442, 0x435, 0x442],
        [0x441, 0x442, 0x443, 0x434, 0x435, 0x43D, 0x442],
        [0x443, 0x447, 0x435, 0x431, 0x430]]),
      (lit ''business'',
       [[0x440, 0x430, 0x431, 0x43E, 0x442, 0x430],
        [0x43E, 0x444, 0x438, 0x441],
        [0x43F, 0x440, 0x43E, 0x435, 0x43A, 0x442],
        [0x437, 0x430, 0x434, 0x430, 0x447, 0x430]])]"

definition generate_tags_from_text :: "py_runtime \<Rightarrow> pystr \<Rightarrow> pystr list" where
  "generate_tags_from_text U text =
     (if text = [] then [lit ''screenshot'']
      else
        let tags = [lit ''screenshot''];
            text_lower = str_lower U text;
            tags = tags @ map fst (filter (\<lambda>(tag, keywords).
                                     list_ex (\<lambda>keyword. py_in keyword text_lower) keywords)
                                   tag_keywords)
        in list_of_set tags)"

section \<open>Clock readings and storage keys\<close>

text \<open>\<open>str(n)\<close> for an integer: its decimal digits, with a minus sign when negative.\<close>

fun str_nat :: "nat \<Rightarrow> pystr" where
  "str_nat n = (if n < 10 then [48 + n] else str_nat (n div 10) @ [48 + n mod 10])"

declare str_nat.simps [simp del]

definition str_int :: "int \<Rightarrow> pystr" where
  "str_int i = (if i < 0 then 45 # str_nat (nat (- i)) else str_nat (nat i))"

text \<open>A number in at least \<open>w\<close> digits, padded with zeros on the left.\<close>

definition zero_padded :: "nat \<Rightarrow> nat \<Rightarrow> pystr" where
  "zero_padded w n = replicate (w - length (str_nat n)) 48 @ str_nat n"

text \<open>What \<open>datetime.now()\<close> returns.\<close>

record datetime =
  year :: nat
  month :: nat
  day :: nat
  hour :: nat
  minute :: nat
  second :: nat
  microsecond :: nat

text \<open>
  \<open>strftime\<close> with the two formats of the source, \<open>%Y%m%d_%H%M%S\<close> and
  \<open>%Y%m%d%H%M%S\<close>. Neither prints the microseconds.
\<close>

definition strftime_date :: "datetime \<Rightarrow> pystr" where
  "strftime_date d = zero_padded 4 (year d) @ zero_padded 2 (month d) @ zero_padded 2 (day d)"

definition strftime_time :: "datetime \<Rightarrow> pystr" where
  "strftime_time d = zero_padded 2 (hour d) @ zero_padded 2 (minute d) @ zero_padded 2 (second d)"

text \<open>The three storage keys, as \<open>handle_photo\<close>, \<open>handle_document\<close> and \<open>handle_image\<close> build them.\<close>

definition ocr_photo_filename :: "int \<Rightarrow> datetime \<Rightarrow> pystr" where
  "ocr_photo_filename uid d =
     (let timestamp = strftime_date d @ lit ''_'' @ strftime_time d
      in lit ''screenshot_'' @ str_int uid @ lit ''_'' @ timestamp @ lit ''.jpg'')"

definition ocr_pdf_filename :: "int \<Rightarrow> datetime \<Rightarrow> pystr" where
  "ocr_pdf_filename uid d =
     (let timestamp = strftime_date d @ lit ''_'' @ strftime_time d
      in lit ''pdf_'' @ str_int uid @ lit ''_'' @ timestamp @ lit ''.pdf'')"

definition ai_filename :: "int \<Rightarrow> datetime \<Rightarrow> pystr" where
  "ai_filename uid d =
     (let timestamp = strftime_date d @ strftime_time d
      in str_int uid @ timestamp @ lit ''.jpg'')"

text \<open>
  The key of the vision-API variant: \<open>uuid\<close> is the text of \<open>uuid.uuid4()\<close> and
  \<open>epoch\<close> is \<open>int(datetime.now().timestamp())\<close>.
\<close>

definition vision_filename :: "pystr \<Rightarrow> int \<Rightarrow> pystr" where
  "vision_filename uuid epoch = lit ''screenshot_'' @ uuid @ lit ''_'' @ str_int epoch @ lit ''.jpg''"

section \<open>The three pipelines\<close>

type_synonym bytes = "nat list"

text \<open>
  The storage upload raises, or returns; \<open>Uploaded ok url\<close> has \<open>ok\<close> false when the
  object returned reports an error (a true \<open>error\<close> attribute in the rules-based variant,
  a false response in the AI variant), and \<open>url\<close> is what \<open>get_public_url\<close> gives.
\<close>

datatype storage_result =
    UploadRaised
  | Uploaded bool pystr

text \<open>An insert raises, or returns the ids of the rows in \<open>result.data\<close>.\<close>

datatype insert_result =
    InsertRaised
  | Inserted "int list"

text \<open>
  One inbound attachment, and what the outside world does during its run. Each variant
  reads the fields it uses: \<open>post\<close> is the OCR request of the rules-based variant,
  \<open>detect\<close> the text detection of the vision-API variant, \<open>analysis\<close> what
  \<open>analyze_image_with_openai\<close> returns (\<open>None\<close> after any exception, else the parsed
  JSON). \<open>download\<close> is \<open>None\<close> when fetching the file raises. Calls of the chat client
  are taken to succeed.
\<close>

record run =
  user_id :: int
  username :: "pystr option"
  file_path :: pystr
  mime_type :: pystr
  download :: "bytes option"
  post :: http_result
  detect :: vision_result
  analysis :: "json option"
  now :: datetime
  uuid4 :: pystr
  epoch :: int
  storage :: storage_result
  notes_insert :: insert_result
  insert_tags_raises :: bool

text \<open>
  The record handed to the insert into \<open>notes\<close> by the two heuristic variants, without
  \<open>created_at\<close>, a second clock reading that nothing here depends on.
\<close>

record note_data =
  note_user_id :: int
  note_title :: pystr
  note_tags :: "pystr list"
  note_content :: pystr
  note_image_url :: "pystr option"

text \<open>The row the AI variant inserts into \<open>notes\<close>: title and content as the backend gave them.\<close>

record note_row =
  row_user_id :: int
  row_username :: pystr
  row_title :: json
  row_content :: json
  row_image_url :: pystr

text \<open>The status texts shown to the user, by what they say.\<close>

datatype message =
    Processing
  | Extracting
  | CouldNotExtract
  | ExtractionError pystr
  | Generating
  | NoteCreated
  | SaveFailed
  | ProcessingFailed
  | NotAPdf
  | Uploading
  | UploadFailed
  | Analyzing
  | AnalysisFailed
  | Saving

text \<open>
  What a run does, in order: the status texts, the calls of the extraction backend
  (\<open>Recognize\<close> with the \<open>mimeType\<close> sent, \<open>Detect\<close>, \<open>Analyze\<close>), the storage upload
  \<open>Put\<close> with its key and bytes, and the inserts into \<open>notes\<close> (\<open>Save\<close>, \<open>InsertNote\<close>)
  and into \<open>note_tags\<close> (\<open>InsertTags\<close>, with the note id of each tag).
\<close>

datatype event =
    Message message
  | Recognize pystr
  | Detect
  | Analyze
  | Put pystr bytes
  | Save note_data
  | InsertNote note_row
  | InsertTags "(int \<times> pystr) list"

fun is_persist :: "event \<Rightarrow> bool" where
  "is_persist (Put k b) = True"
| "is_persist (Save n) = True"
| "is_persist (InsertNote r) = True"
| "is_persist (InsertTags ts) = True"
| "is_persist _ = False"

definition persisted :: "event list \<Rightarrow> event list" where
  "persisted tr = filter is_persist tr"

fun is_note_insert :: "event \<Rightarrow> bool" where
  "is_note_insert (Save n) = True"
| "is_note_insert (InsertNote r) = True"
| "is_note_insert (InsertTags ts) = True"
| "is_note_insert _ = False"

definition notes_saved :: "event list \<Rightarrow> event list" where
  "notes_saved tr = filter is_note_insert tr"

fun put_key :: "event \<Rightarrow> pystr option" where
  "put_key (Put k b) = Some k"
| "put_key _ = None"

definition put_keys :: "event list \<Rightarrow> pystr list" where
  "put_keys tr = List.map_filter put_key tr"

subsection \<open>The rules-based variant\<close>

text \<open>\<open>SupabaseManager.upload_image\<close> and \<open>save_note\<close>, by what they return.\<close>

definition upload_image :: "storage_result \<Rightarrow> pystr option" where
  "upload_image r =
     (case r of UploadRaised \<Rightarrow> None | Uploaded ok url \<Rightarrow> if ok then Some url else None)"

definition save_note :: "insert_result \<Rightarrow> bool" where
  "save_note r = (case r of InsertRaised \<Rightarrow> False | Inserted ids \<Rightarrow> ids \<noteq> [])"

definition photo_mime_type :: "py_runtime \<Rightarrow> pystr \<Rightarrow> pystr" where
  "photo_mime_type U path =
     (if py_endswith (str_lower U path) (lit ''.png'') then lit ''PNG''
      else if py_endswith (str_lower U path) (lit ''.pdf'') then lit ''PDF''
      else lit ''JPEG'')"

text \<open>The part of both handlers after the extraction checks.\<close>

definition ocr_process_note :: "py_runtime \<Rightarrow> run \<Rightarrow> bytes \<Rightarrow> pystr \<Rightarrow> pystr \<Rightarrow> event list" where
  "ocr_process_note U r downloaded_file extracted_text filename =
     (let title = generate_title extracted_text default_max_length;
          tags = extract_tags U extracted_text;
          image_url = upload_image (storage r)
      in [Put filename downloaded_file,
          Save \<lparr>note_user_id = user_id r, note_title = title, note_tags = tags,
                note_content = extracted_text, note_image_url = image_url\<rparr>])"

definition ocr_handle_photo :: "py_runtime \<Rightarrow> run \<Rightarrow> event list" where
  "ocr_handle_photo U r =
     Message Processing #
     (case download r of
        None \<Rightarrow> [Message ProcessingFailed]
      | Some downloaded_file \<Rightarrow>
          Message Extracting # Recognize (photo_mime_type U (file_path r)) #
          (let extracted_text = ocr_extract_text_from_image (post r)
           in if extracted_text = [] then [Message CouldNotExtract]
              else if py_startswith extracted_text (lit ''Error:'')
              then [Message (ExtractionError extracted_text)]
              else
                Message Generating #
                ocr_process_note U r downloaded_file extracted_text
                  (ocr_photo_filename (user_id r) (now r)) @
                [Message (if save_note (notes_insert r) then NoteCreated else SaveFailed)]))"

text \<open>
  \<open>handle_document\<close> gives one answer to an empty text and to an error marker, and says
  nothing when the insert fails.
\<close>

definition ocr_handle_document :: "py_runtime \<Rightarrow> run \<Rightarrow> event list" where
  "ocr_handle_document U r =
     (if mime_type r \<noteq> lit ''application/pdf'' then [Message NotAPdf]
      else
        Message Processing #
        (case download r of
           None \<Rightarrow> [Message ProcessingFailed]
         | Some downloaded_file \<Rightarrow>
             Message Extracting # Recognize (lit ''PDF'') #
             (let extracted_text = ocr_extract_text_from_image (post r)
              in if extracted_text = [] \<or> py_startswith extracted_text (lit ''Error:'')
                 then [Message CouldNotExtract]
                 else
                   ocr_process_note U r downloaded_file extracted_text
                     (ocr_pdf_filename (user_id r) (now r)) @
                   (if save_note (notes_insert r) then [Message NoteCreated] else []))))"

subsection \<open>The vision-API variant\<close>

text \<open>
  \<open>upload_image_to_supabase\<close> and \<open>save_note_to_database\<close> of this variant, by
  what they return; the upload does not look at the object the storage call returns.
\<close>

definition vision_upload_image_to_supabase :: "storage_result \<Rightarrow> pystr option" where
  "vision_upload_image_to_supabase r =
     (case r of UploadRaised \<Rightarrow> None | Uploaded ok url \<Rightarrow> Some url)"

definition save_note_to_database :: "insert_result \<Rightarrow> bool" where
  "save_note_to_database r = (case r of InsertRaised \<Rightarrow> False | Inserted ids \<Rightarrow> ids \<noteq> [])"

text \<open>\<open>not image_url\<close>: no URL, or an empty one.\<close>

definition no_url :: "pystr option \<Rightarrow> bool" where
  "no_url u = (case u of None \<Rightarrow> True | Some s \<Rightarrow> s = [])"

definition vision_handle_photo :: "py_runtime \<Rightarrow> run \<Rightarrow> event list" where
  "vision_handle_photo U r =
     Message Analyzing #
     (case download r of
        None \<Rightarrow> [Message ProcessingFailed]
      | Some image_data \<Rightarrow>
          Detect #
          (let extracted_text = vision_extract_text_from_image (detect r)
           in if extracted_text = [] then [Message CouldNotExtract]
              else
                let title = generate_title_from_text U extracted_text;
                    tags = generate_tags_from_text U extracted_text;
                    filename = vision_filename (uuid4 r) (epoch r);
                    image_url = vision_upload_image_to_supabase (storage r)
                in Put filename image_data #
                   (if no_url image_url then [Message UploadFailed]
                    else
                      [Save \<lparr>note_user_id = user_id r, note_title = title, note_tags = tags,
                             note_content = extracted_text, note_image_url = image_url\<rparr>,
                       Message (if save_note_to_database (notes_insert r)
                                then NoteCreated else SaveFailed)])))"

subsection \<open>The AI variant\<close>

text \<open>\<open>upload_image_to_supabase\<close> of this variant, by what it returns.\<close>

definition ai_upload_image_to_supabase :: "storage_result \<Rightarrow> pystr option" where
  "ai_upload_image_to_supabase r =
     (case r of UploadRaised \<Rightarrow> None | Uploaded ok url \<Rightarrow> if ok then Some url else None)"

text \<open>
  The loop that builds \<open>tag_data\<close>: every tag whose \<open>strip()\<close> is not empty, stripped,
  with the id of the note. A tag that is not a string raises.
\<close>

fun tag_rows :: "int \<Rightarrow> json list \<Rightarrow> py_exception + (int \<times> pystr) list" where
  "tag_rows note_id [] = Inr []"
| "tag_rows note_id (tag # rest) =
     bind_exc (py_strip_obj tag) (\<lambda>stripped.
     bind_exc (tag_rows note_id rest) (\<lambda>rows.
       Inr (if stripped \<noteq> [] then (note_id, stripped) # rows else rows)))"

definition tag_data_of :: "int \<Rightarrow> json \<Rightarrow> py_exception + (int \<times> pystr) list" where
  "tag_data_of note_id note_data =
     bind_exc (py_get note_data (lit ''tags'') JNull) (\<lambda>tags.
       if py_truthy tags
       then bind_exc (py_getitem note_data (lit ''tags'')) (\<lambda>tags.
            bind_exc (py_iter tags) (tag_rows note_id))
       else Inr [])"

text \<open>
  \<open>save_note_to_db\<close>: the inserts it makes, and what it returns. Any exception, before
  or after the insert into \<open>notes\<close>, makes it return \<open>False\<close>.
\<close>

definition save_note_to_db :: "run \<Rightarrow> pystr \<Rightarrow> json \<Rightarrow> pystr \<Rightarrow> event list \<times> bool" where
  "save_note_to_db r uname note_data url =
     (case bind_exc (py_getitem note_data (lit ''title'')) (\<lambda>t.
           bind_exc (py_getitem note_data (lit ''content'')) (\<lambda>c. Inr (t, c))) of
        Inl e \<Rightarrow> ([], False)
      | Inr (t, c) \<Rightarrow>
          let note_db_data =
                \<lparr>row_user_id = user_id r, row_username = uname, row_title = t,
                 row_content = c, row_image_url = url\<rparr>
          in (case notes_insert r of
                InsertRaised \<Rightarrow> ([InsertNote note_db_data], False)
              | Inserted ids \<Rightarrow>
                  (case ids of
                     [] \<Rightarrow> ([InsertNote note_db_data], False)
                   | note_id # _ \<Rightarrow>
                       (case tag_data_of note_id note_data of
                          Inl e \<Rightarrow> ([InsertNote note_db_data], False)
                        | Inr tag_data \<Rightarrow>
                            if tag_data \<noteq> []
                            then ([InsertNote note_db_data, InsertTags tag_data],
                                  \<not> insert_tags_raises r)
                            else ([InsertNote note_db_data], True)))))"

text \<open>
  Whether the reply after a successful save can be formatted: the content must allow a
  slice and the tags must be there and join as strings; otherwise the handler's
  \<open>except\<close> reports a processing error, after the note is saved.
\<close>

definition reply_ok :: "json \<Rightarrow> bool" where
  "reply_ok analysis_result =
     ((case py_getitem analysis_result (lit ''content'') of
         Inr (JStr s) \<Rightarrow> True | Inr (JArr xs) \<Rightarrow> True | _ \<Rightarrow> False) \<and>
      (case bind_exc (py_getitem analysis_result (lit ''tags'')) (\<lambda>tags.
            bind_exc (py_iter tags) py_strings) of
         Inr ss \<Rightarrow> True | Inl e \<Rightarrow> False))"

definition ai_handle_image :: "run \<Rightarrow> event list" where
  "ai_handle_image r =
     (let uname = (case username r of
                     None \<Rightarrow> lit ''user_'' @ str_int (user_id r)
                   | Some u \<Rightarrow> if u = [] then lit ''user_'' @ str_int (user_id r) else u)
      in Message Processing #
         (case download r of
            None \<Rightarrow> [Message ProcessingFailed]
          | Some image_data \<Rightarrow>
              Message Uploading # Put (ai_filename (user_id r) (now r)) image_data #
              (case ai_upload_image_to_supabase (storage r) of
                 None \<Rightarrow> [Message UploadFailed]
               | Some url \<Rightarrow>
                   if url = [] then [Message UploadFailed]
                   else
                     Message Analyzing # Analyze #
                     (case analysis r of
                        None \<Rightarrow> [Message AnalysisFailed]
                      | Some analysis_result \<Rightarrow>
                          if \<not> py_truthy analysis_result then [Message AnalysisFailed]
                          else
                            Message Saving #
                            (case save_note_to_db r uname analysis_result url of
                               (inserts, saved) \<Rightarrow>
                                 inserts @
                                 [Message (if \<not> saved then SaveFailed
                                           else if reply_ok analysis_result then NoteCreated
                                           else ProcessingFailed)])))))"

section \<open>Notions the properties are stated with\<close>

text \<open>
  A rejected credential reaches the rules-based extractor as status 401, on the response
  or on an \<open>HTTPError\<close>; a network failure as an exception of \<open>requests\<close> raised by the
  call; and the provider returns no text when the call succeeds and the reading of its
  body ends in \<open>return ""\<close>.
\<close>

fun auth_failure :: "http_result \<Rightarrow> bool" where
  "auth_failure (Response status body) = (status = 401)"
| "auth_failure (Raised (HTTPError (Some status))) = (status = 401)"
| "auth_failure _ = False"

fun network_failure :: "http_result \<Rightarrow> bool" where
  "network_failure (Raised RequestException) = True"
| "network_failure _ = False"

fun no_text :: "http_result \<Rightarrow> bool" where
  "no_text (Response status (Inr result)) = (status < 400 \<and> text_of_result result = Inr [])"
| "no_text _ = False"

text \<open>
  The OCR call failed: the request raised, the status is 401 or another error status,
  \<open>json()\<close> raised, or reading the parsed body raised.
\<close>

fun ocr_call_failed :: "http_result \<Rightarrow> bool" where
  "ocr_call_failed (Raised e) = True"
| "ocr_call_failed (Response status body) =
     (status = 401 \<or> (400 \<le> status \<and> status < 600) \<or>
      (case body of
         Inl e \<Rightarrow> True
       | Inr result \<Rightarrow> (case text_of_result result of Inl e \<Rightarrow> True | Inr t \<Rightarrow> False)))"

text \<open>
  A well-formed line of the block structure with its text, and a well-formed block with
  the texts of its lines. Further fields of either are allowed.
\<close>

fun line_has_text :: "json \<Rightarrow> pystr \<Rightarrow> bool" where
  "line_has_text (JObj kvs) t = (map_of kvs (lit ''text'') = Some (JStr t))"
| "line_has_text _ t = False"

fun block_has_lines :: "json \<Rightarrow> pystr list \<Rightarrow> bool" where
  "block_has_lines (JObj kvs) ts =
     (case map_of kvs (lit ''lines'') of
        Some (JArr ls) \<Rightarrow> list_all2 line_has_text ls ts
      | _ \<Rightarrow> False)"
| "block_has_lines _ ts = False"

text \<open>The extraction of a run failed or found nothing, in each variant.\<close>

definition ocr_extraction_failed :: "run \<Rightarrow> bool" where
  "ocr_extraction_failed r =
     (ocr_extract_text_from_image (post r) = [] \<or>
      py_startswith (ocr_extract_text_from_image (post r)) (lit ''Error:''))"

definition vision_extraction_failed :: "run \<Rightarrow> bool" where
  "vision_extraction_failed r = (vision_extract_text_from_image (detect r) = [])"

text \<open>
  \<open>analyze_image_with_openai\<close> failed: the request, the reply or its parsing raised,
  and the function returned \<open>None\<close>.
\<close>

definition ai_analysis_failed :: "run \<Rightarrow> bool" where
  "ai_analysis_failed r = (analysis r = None)"

text \<open>
  The backend answered with an empty JSON value: \<open>null\<close>, \<open>false\<close>, zero, or an
  empty string, list or object.
\<close>

definition ai_analysis_empty :: "run \<Rightarrow> bool" where
  "ai_analysis_empty r = (case analysis r of None \<Rightarrow> False | Some j \<Rightarrow> \<not> py_truthy j)"

text \<open>\<open>str.lower()\<close> on an ASCII character.\<close>

definition ascii_lower :: "nat \<Rightarrow> nat" where
  "ascii_lower c = (if 65 \<le> c \<and> c \<le> 90 then c + 32 else c)"

text \<open>
  Three facts about \<open>str.lower()\<close> of Python that the properties of the tags rest on:
  lowering a lowered string changes nothing, only the empty string lowers to the empty
  string, and a string of ASCII characters is lowered character by character.
\<close>

definition lower_laws :: "py_runtime \<Rightarrow> bool" where
  "lower_laws U \<longleftrightarrow>
     (\<forall>s. str_lower U (str_lower U s) = str_lower U s) \<and>
     (\<forall>s. (str_lower U s = []) = (s = [])) \<and>
     (\<forall>s. list_all (\<lambda>c. c < 128) s \<longrightarrow> str_lower U s = map ascii_lower s)"

text \<open>
  Two tags are equal up to case when \<open>str.lower()\<close> makes them equal; a list has no case
  duplicates when no two of its entries are.
\<close>

definition no_case_duplicates :: "py_runtime \<Rightarrow> pystr list \<Rightarrow> bool" where
  "no_case_duplicates U ts = distinct (map (str_lower U) ts)"

text \<open>
  What the loop of \<open>save_note_to_db\<close> is to make of the tags \<open>ss\<close> of the backend for
  the note \<open>note_id\<close>: each tag stripped, in order, without those that strip to nothing.
\<close>

definition stripped_tags :: "int \<Rightarrow> pystr list \<Rightarrow> (int \<times> pystr) list" where
  "stripped_tags note_id ss =
     map (\<lambda>s. (note_id, py_strip s)) (filter (\<lambda>s. py_strip s \<noteq> []) ss)"

section \<open>Concrete inputs\<close>

text \<open>
  A runtime to run the model on concrete texts: its tables are those of Unicode on Basic
  Latin and on the Cyrillic block U+0400..U+045F, the scripts of the keyword tables, and
  it serves for texts in these scripts only. Outside them it leaves every code point
  unchanged and counts none as a word character.
\<close>

definition sample_lower_cp :: "nat \<Rightarrow> nat" where
  "sample_lower_cp c =
     (if 65 \<le> c \<and> c \<le> 90 then c + 32
      else if 0x410 \<le> c \<and> c \<le> 0x42F then c + 0x20
      else if 0x400 \<le> c \<and> c \<le> 0x40F then c + 0x50
      else c)"

definition sample_word :: "nat \<Rightarrow> bool" where
  "sample_word c \<longleftrightarrow>
     (48 \<le> c \<and> c \<le> 57) \<or> (65 \<le> c \<and> c \<le> 90) \<or> c = 95 \<or> (97 \<le> c \<and> c \<le> 122) \<or>
     (0x400 \<le> c \<and> c \<le> 0x45F)"

definition sample_runtime :: py_runtime where
  "sample_runtime = \<lparr>str_lower = map sample_lower_cp, re_w = sample_word\<rparr>"

text \<open>A text of 80 letters \<open>a\<close> and no punctuation is its own first sentence.\<close>

definition eighty_letters :: pystr where
  "eighty_letters = replicate 80 97"

text \<open>An error marker of 80 characters.\<close>

definition error_text_80 :: pystr where
  "error_text_80 = lit ''Error: '' @ replicate 73 120"

text \<open>Two clock readings within one second.\<close>

definition noon :: datetime where
  "noon = \<lparr>year = 2025, month = 1, day = 1, hour = 12, minute = 0, second = 0,
           microsecond = 100000\<rparr>"

definition noon_later :: datetime where
  "noon_later = noon\<lparr>microsecond := 900000\<rparr>"

text \<open>
  An OCR response with both representations of the text \<open>Hi\<close>; the consolidated field
  ends in a newline.
\<close>

definition hi_blocks :: "json list" where
  "hi_blocks = [JObj [(lit ''lines'', JArr [JObj [(lit ''text'', JStr (lit ''Hi''))]])]]"

definition hi_annotation :: "(pystr \<times> json) list" where
  "hi_annotation =
     [(lit ''width'', JNum 100),
      (lit ''fullText'', JStr (lit ''Hi'' @ [10])),
      (lit ''blocks'', JArr hi_blocks)]"

definition hi_result :: "(pystr \<times> json) list" where
  "hi_result = [(lit ''textAnnotation'', JObj hi_annotation)]"

definition hi_response :: json where
  "hi_response = JObj [(lit ''result'', JObj hi_result)]"

text \<open>An OCR response with the block structure only: two blocks, three lines, one empty.\<close>

definition two_blocks :: "json list" where
  "two_blocks =
     [JObj [(lit ''lines'',
             JArr [JObj [(lit ''text'', JStr (lit ''Total''))],
                   JObj [(lit ''text'', JStr [])]])],
      JObj [(lit ''lines'', JArr [JObj [(lit ''text'', JStr (lit ''Due''))]])]]"

definition blocks_annotation :: "(pystr \<times> json) list" where
  "blocks_annotation = [(lit ''blocks'', JArr two_blocks)]"

definition blocks_result :: "(pystr \<times> json) list" where
  "blocks_result = [(lit ''textAnnotation'', JObj blocks_annotation)]"

definition blocks_response :: json where
  "blocks_response = JObj [(lit ''result'', JObj blocks_result)]"

text \<open>An OCR response with an empty annotation: the provider found no text.\<close>

definition empty_response :: json where
  "empty_response = JObj [(lit ''result'', JObj [(lit ''textAnnotation'', JObj [])])]"

text \<open>What the AI backend may return: a note with two tags that differ in case only.\<close>

definition auth_analysis :: json where
  "auth_analysis =
     JObj [(lit ''title'', JStr (lit ''Login'')),
           (lit ''tags'', JArr [JStr (lit ''Auth''), JStr (lit ''auth''), JStr (lit '' '')]),
           (lit ''content'', JStr (lit ''Sign in''))]"

text \<open>A run in which every backend succeeds, and variations of it.\<close>

definition good_run :: run where
  "good_run =
     \<lparr>user_id = 42, username = Some (lit ''alice''), file_path = lit ''photos/file_1.jpg'',
      mime_type = lit ''application/pdf'', download = Some [255, 216, 255],
      post = Response 200 (Inr hi_response),
      detect = TextAnnotations [lit ''Total: $120'', lit ''Total:'', lit ''$120''],
      analysis = Some auth_analysis, now = noon,
      uuid4 = lit ''1b4e28ba-2fa1-41d2-883f-0016d3cca427'', epoch = 1735732800,
      storage = Uploaded True (lit ''https://storage.example/file.jpg''),
      notes_insert = Inserted [7], insert_tags_raises = False\<rparr>"

definition analysis_failed_run :: run where
  "analysis_failed_run = good_run\<lparr>analysis := None\<rparr>"

text \<open>The same user sends a second photo within the same second.\<close>

definition second_photo_run :: run where
  "second_photo_run = good_run\<lparr>download := Some [137, 80, 78, 71], now := noon_later\<rparr>"

text \<open>The text detection returns a space and a newline.\<close>

definition blank_text_run :: run where
  "blank_text_run = good_run\<lparr>detect := TextAnnotations [[32, 10]]\<rparr>"

text \<open>A screenshot whose own text begins with the error prefix.\<close>

definition error_screenshot_run :: run where
  "error_screenshot_run =
     good_run\<lparr>post := Response 200 (Inr (JObj [(lit ''result'',
       JObj [(lit ''textAnnotation'',
         JObj [(lit ''fullText'', JStr (lit ''Error: disk full''))])])]))\<rparr>"

text \<open>All three extraction backends fail or find nothing.\<close>

definition backends_down_run :: run where
  "backends_down_run =
     good_run\<lparr>post := Raised RequestException, detect := TextAnnotations [],
              analysis := None\<rparr>"

text \<open>The note that the vision-API variant saves in \<open>good_run\<close>; its title is the topic for money.\<close>

definition good_vision_note :: note_data where
  "good_vision_note =
     \<lparr>note_user_id = 42,
      note_title = [0x414, 0x435, 0x43D, 0x44C, 0x433, 0x438],
      note_tags = [lit ''screenshot'', lit ''financial''],
      note_content = lit ''Total: $120'',
      note_image_url = Some (lit ''https://storage.example/file.jpg'')\<rparr>"

text \<open>The note that the vision-API variant saves in \<open>blank_text_run\<close>.\<close>

definition blank_note :: note_data where
  "blank_note =
     \<lparr>note_user_id = 42, note_title = default_title_ru, note_tags = [lit ''screenshot''],
      note_content = [32, 10],
      note_image_url = Some (lit ''https://storage.example/file.jpg'')\<rparr>"

text \<open>The AI backend returns a note whose content is the empty string.\<close>

definition empty_content_analysis :: json where
  "empty_content_analysis =
     JObj [(lit ''title'', JStr (lit ''Blank'')),
           (lit ''tags'', JArr []),
           (lit ''content'', JStr [])]"

definition empty_content_run :: run where
  "empty_content_run = good_run\<lparr>analysis := Some empty_content_analysis\<rparr>"

text \<open>The row that the AI variant inserts in \<open>empty_content_run\<close>.\<close>

definition empty_content_row :: note_row where
  "empty_content_row =
     \<lparr>row_user_id = 42, row_username = lit ''alice'', row_title = JStr (lit ''Blank''),
      row_content = JStr [], row_image_url = lit ''https://storage.example/file.jpg''\<rparr>"

text \<open>The AI backend answers with an empty object.\<close>

definition empty_object_run :: run where
  "empty_object_run = good_run\<lparr>analysis := Some (JObj [])\<rparr>"

section \<open>Properties of the title heuristic\<close>

lemma length_lit [simp]: "length (lit s) = length s"
  by (simp add: lit_def)

lemma re_split_sentences_hd:
  "re_split_sentences s \<noteq> [] \<and>
   hd (re_split_sentences s) = takeWhile (\<lambda>c. \<not> sentence_end c) s"
  by (subst (1 2) re_split_sentences.simps) (simp add: Let_def)

lemma length_re_sub_spaces: "length (re_sub_spaces s) \<le> length s"
proof (induction s rule: re_sub_spaces.induct)
  case 1
  show ?case by simp
next
  case (2 c cs)
  have "length (dropWhile py_isspace cs) \<le> length cs"
    by (rule length_dropWhile_le)
  with 2 show ?case by (auto simp: le_Suc_eq)
qed

text \<open>
  \<open>re.split\<close> never returns an empty list, so the branch \<open>content[:max_length]\<close> is
  dead and the title is computed from the collapsed first sentence alone.
\<close>

lemma generate_title_unfold:
  assumes "content \<noteq> []" "\<not> py_startswith content (lit ''Error:'')"
  shows "generate_title content m =
    (let t = collapsed_first_sentence content;
         t' = (if int (length t) > m then py_slice_to (m - 3) t @ lit ''...'' else t)
     in if t' \<noteq> [] then t' else lit ''Screenshot Note'')"
  using assms unfolding generate_title_def collapsed_first_sentence_def Let_def
  by (simp only: re_split_sentences_hd if_True if_False simp_thms)

lemma generate_title_truncated:
  assumes "\<not> py_startswith content (lit ''Error:'')"
    and "int (length (collapsed_first_sentence content)) > m" and "3 \<le> m"
  shows "generate_title content m =
         take (nat (m - 3)) (collapsed_first_sentence content) @ lit ''...''"
proof -
  have ne: "content \<noteq> []"
    using assms(2,3) by (auto simp: collapsed_first_sentence_def py_strip_def)
  show ?thesis
    using assms
    by (simp add: generate_title_unfold[OF ne assms(1)] Let_def py_slice_to_def lit_def)
qed

lemma generate_title_bound:
  assumes "content \<noteq> []" "\<not> py_startswith content (lit ''Error:'')" "15 \<le> m"
  shows "generate_title content m \<noteq> [] \<and> int (length (generate_title content m)) \<le> m"
  using assms(3)
  by (auto simp add: generate_title_unfold[OF assms(1,2)] Let_def py_slice_to_def lit_def)

lemma generate_title_bound_all:
  assumes "19 \<le> m"
  shows "int (length (generate_title content m)) \<le> m"
proof (cases "content = [] \<or> py_startswith content (lit ''Error:'')")
  case True
  then show ?thesis using assms by (auto simp: generate_title_def)
next
  case False
  then show ?thesis using generate_title_bound[of content m] assms by auto
qed

text \<open>
  C4, as the code has it. For every non-empty text that does not start with \<open>Error:\<close>,
  \<open>generate_title\<close> returns a non-empty string of at most \<open>max_length\<close> characters,
  provided \<open>max_length\<close> is at least 15, the length of the fallback title
  \<open>Screenshot Note\<close>; the default 50 is such a bound.
\<close>

theorem generate_title_nonempty_bounded:
  assumes "content \<noteq> []" and "\<not> py_startswith content (lit ''Error:'')"
    and "15 \<le> max_length"
  shows "generate_title content max_length \<noteq> [] \<and>
         int (length (generate_title content max_length)) \<le> max_length"
  using assms by (rule generate_title_bound)

theorem generate_title_nonempty_bounded_witness:
  "lit ''Hello  world. Bye'' \<noteq> [] \<and>
   \<not> py_startswith (lit ''Hello  world. Bye'') (lit ''Error:'') \<and>
   15 \<le> default_max_length \<and>
   generate_title (lit ''Hello  world. Bye'') default_max_length \<noteq> [] \<and>
   int (length (generate_title (lit ''Hello  world. Bye'') default_max_length))
     \<le> default_max_length"
proof -
  have h1: "lit ''Hello  world. Bye'' \<noteq> []" by code_simp
  have h2: "\<not> py_startswith (lit ''Hello  world. Bye'') (lit ''Error:'')" by code_simp
  have h3: "15 \<le> default_max_length" by (simp add: default_max_length_def)
  show ?thesis
    using generate_title_nonempty_bounded[OF h1 h2 h3] h1 h2 h3 by blast
qed

text \<open>
  C4 as it is written fails for a small \<open>max_length\<close>: the text \<open>.\<close> has an empty
  first sentence, and the fallback title has 15 characters whatever the bound is.
\<close>

theorem generate_title_small_bound_counterexample:
  "lit ''.'' \<noteq> [] \<and> \<not> py_startswith (lit ''.'') (lit ''Error:'') \<and>
   generate_title (lit ''.'') 10 = lit ''Screenshot Note'' \<and>
   \<not> int (length (generate_title (lit ''.'') 10)) \<le> 10"
  by code_simp

text \<open>
  C5, as the code has it. For every text that does not start with \<open>Error:\<close> and whose
  collapsed first sentence has 80 characters, the title under the default bound has
  exactly 50 characters and ends in \<open>...\<close>; and for every text whatsoever the title
  under the default bound has at most 50 characters.
\<close>

theorem generate_title_truncation:
  assumes "\<not> py_startswith content (lit ''Error:'')"
    and "length (collapsed_first_sentence content) = 80"
  shows "length (generate_title content default_max_length) = 50 \<and>
         py_endswith (generate_title content default_max_length) (lit ''...'') \<and>
         (\<forall>c. int (length (generate_title c default_max_length)) \<le> default_max_length)"
proof -
  have "generate_title content 50 =
        take (nat (50 - 3)) (collapsed_first_sentence content) @ lit ''...''"
    using assms by (intro generate_title_truncated) simp_all
  then have "length (generate_title content 50) = 50 \<and>
             py_endswith (generate_title content 50) (lit ''...'')"
    using assms(2) by (simp add: py_endswith_def suffix_def)
  moreover have "int (length (generate_title c 50)) \<le> 50" for c
    by (rule generate_title_bound_all) simp
  ultimately show ?thesis by (simp add: default_max_length_def)
qed

theorem generate_title_truncation_witness:
  "\<not> py_startswith eighty_letters (lit ''Error:'') \<and>
   length (collapsed_first_sentence eighty_letters) = 80 \<and>
   length (generate_title eighty_letters default_max_length) = 50 \<and>
   py_endswith (generate_title eighty_letters default_max_length) (lit ''...'')"
proof -
  have h1: "\<not> py_startswith eighty_letters (lit ''Error:'')" by code_simp
  have h2: "length (collapsed_first_sentence eighty_letters) = 80" by code_simp
  show ?thesis
    using generate_title_truncation[OF h1 h2] h1 h2 by blast
qed

text \<open>
  C5 as it is written fails on an error marker: this text starts with \<open>Error:\<close>, its
  first sentence has 80 characters, and the title is the fixed default, 19 characters
  long and not truncated.
\<close>

theorem generate_title_truncation_counterexample:
  "length (collapsed_first_sentence error_text_80) = 80 \<and>
   generate_title error_text_80 default_max_length = lit ''Untitled Screenshot'' \<and>
   length (generate_title error_text_80 default_max_length) \<noteq> 50 \<and>
   \<not> py_endswith (generate_title error_text_80 default_max_length) (lit ''...'')"
  by code_simp

section \<open>Properties of the rules-based extractor\<close>

lemma bind_exc_simps [simp]:
  "bind_exc (Inl e) f = Inl e" "bind_exc (Inr x) f = f x"
  by (simp_all add: bind_exc_def)

lemma py_strings_map_JStr [simp]: "py_strings (map JStr ss) = Inr ss"
  by (induction ss) simp_all

lemma collect_lines_well_formed:
  "list_all2 line_has_text ls ts \<Longrightarrow>
   collect_lines ls = Inr (map JStr (filter (\<lambda>t. t \<noteq> []) ts))"
proof (induction ls ts rule: list_all2_induct)
  case Nil
  show ?case by simp
next
  case (Cons l ls t ts)
  from Cons.hyps(1) obtain kvs
    where "l = JObj kvs" "map_of kvs (lit ''text'') = Some (JStr t)"
    by (cases l) auto
  with Cons.IH show ?case by simp
qed

lemma collect_blocks_well_formed:
  "list_all2 block_has_lines bs tss \<Longrightarrow>
   collect_blocks bs = Inr (map JStr (filter (\<lambda>t. t \<noteq> []) (concat tss)))"
proof (induction bs tss rule: list_all2_induct)
  case Nil
  show ?case by simp
next
  case (Cons b bs ts tss)
  from Cons.hyps(1) obtain kvs ls where b: "b = JObj kvs"
    "map_of kvs (lit ''lines'') = Some (JArr ls)" "list_all2 line_has_text ls ts"
    by (cases b) (auto split: option.splits json.splits)
  show ?case
    using Cons.IH b by (simp add: collect_lines_well_formed)
qed

lemma text_of_annotation_well_formed:
  assumes "map_of ta (lit ''fullText'') = map_option JStr full_text"
    and "map_of ta (lit ''blocks'') = Some (JArr bs)"
    and "list_all2 block_has_lines bs tss"
  shows "text_of_annotation (JObj ta) =
         Inr (case full_text of
                None \<Rightarrow> py_strip (py_join [10] (filter (\<lambda>t. t \<noteq> []) (concat tss)))
              | Some ft \<Rightarrow>
                  if ft = [] then py_strip (py_join [10] (filter (\<lambda>t. t \<noteq> []) (concat tss)))
                  else py_strip ft)"
proof -
  have strip_nil: "py_strip [] = []" by (simp add: py_strip_def)
  show ?thesis
    using assms
    by (cases full_text)
       (auto simp: text_of_annotation_def py_join_obj_def collect_blocks_well_formed strip_nil)
qed

lemma text_of_result_well_formed:
  assumes "map_of kvs (lit ''result'') = Some (JObj kvs')"
    and "map_of kvs' (lit ''textAnnotation'') = Some (JObj ta)"
  shows "text_of_result (JObj kvs) = text_of_annotation (JObj ta)"
proof -
  have a: "lit ''result'' \<in> fst ` set kvs"
    using assms(1) by (metis map_of_eq_None_iff option.distinct(1))
  have b: "lit ''textAnnotation'' \<in> fst ` set kvs'"
    using assms(2) by (metis map_of_eq_None_iff option.distinct(1))
  show ?thesis using assms a b by (simp add: text_of_result_def)
qed

lemma ocr_extract_ok:
  assumes "status < 400"
  shows "ocr_extract_text_from_image (Response status (Inr result)) =
         (case text_of_result result of Inl e \<Rightarrow> ocr_except e | Inr t \<Rightarrow> t)"
  using assms by (simp add: ocr_extract_text_from_image_def raise_for_status_def)

lemma ocr_extract_well_formed:
  assumes "status < 400"
    and "map_of kvs (lit ''result'') = Some (JObj kvs')"
    and "map_of kvs' (lit ''textAnnotation'') = Some (JObj ta)"
    and "map_of ta (lit ''fullText'') = map_option JStr full_text"
    and "map_of ta (lit ''blocks'') = Some (JArr bs)"
    and "list_all2 block_has_lines bs line_texts"
  shows "ocr_extract_text_from_image (Response status (Inr (JObj kvs))) =
         (case full_text of
            None \<Rightarrow> py_strip (py_join [10] (filter (\<lambda>t. t \<noteq> []) (concat line_texts)))
          | Some ft \<Rightarrow>
              if ft = []
              then py_strip (py_join [10] (filter (\<lambda>t. t \<noteq> []) (concat line_texts)))
              else py_strip ft)"
  by (simp add: ocr_extract_ok[OF assms(1)] text_of_result_well_formed[OF assms(2,3)]
        text_of_annotation_well_formed[OF assms(4,5,6)])

lemma ocr_except_prefix: "py_startswith (ocr_except e) (lit ''Error:'')"
  by (cases e) (auto simp: py_startswith_def lit_def split: option.splits)

lemma ocr_call_failed_prefix:
  assumes "ocr_call_failed p"
  shows "py_startswith (ocr_extract_text_from_image p) (lit ''Error:'')"
proof (cases p)
  case (Raised e)
  then show ?thesis by (simp add: ocr_extract_text_from_image_def ocr_except_prefix)
next
  case (Response status body)
  show ?thesis
  proof (cases "status = 401")
    case True
    then show ?thesis
      using Response by (simp add: ocr_extract_text_from_image_def py_startswith_def lit_def)
  next
    case False
    define res where
      "res = bind_exc (raise_for_status status) (\<lambda>_. bind_exc body text_of_result)"
    have "\<exists>e. res = Inl e"
      using Response assms False
      by (auto simp: res_def raise_for_status_def split: sum.splits)
    then obtain e where "res = Inl e" ..
    then have "ocr_extract_text_from_image p = ocr_except e"
      using Response False by (simp add: ocr_extract_text_from_image_def res_def)
    then show ?thesis by (simp add: ocr_except_prefix)
  qed
qed

lemma py_strip_blank:
  assumes "list_all py_isspace s"
  shows "py_strip s = []"
proof -
  have d: "dropWhile py_isspace s = []"
    using assms by (simp add: list_all_iff)
  show ?thesis unfolding py_strip_def d by simp
qed

text \<open>
  A consolidated field of whitespace only is returned stripped, that is, empty: the
  rules-based handlers then report that no text was found.
\<close>

lemma ocr_extract_blank_full_text:
  assumes "status < 400"
    and "map_of kvs (lit ''result'') = Some (JObj kvs')"
    and "map_of kvs' (lit ''textAnnotation'') = Some (JObj ta)"
    and "map_of ta (lit ''fullText'') = Some (JStr ft)"
    and "ft \<noteq> []" and "list_all py_isspace ft"
  shows "ocr_extract_text_from_image (Response status (Inr (JObj kvs))) = []"
  using assms(4,5,6)
  by (simp add: ocr_extract_ok[OF assms(1)] text_of_result_well_formed[OF assms(2,3)]
        text_of_annotation_def py_strip_blank)

text \<open>
  C8, as the code has it. For a response with a well-formed annotation, the extractor
  returns the consolidated field \<open>fullText\<close> with the whitespace at both ends removed
  when that field is present and not empty, whatever the block structure holds; when the
  field is absent or empty it returns the non-empty line texts, block by block and line
  by line, joined by newlines, again with the whitespace at both ends removed.
\<close>

theorem consolidated_text_preferred:
  assumes "status < 400"
    and "map_of kvs (lit ''result'') = Some (JObj kvs')"
    and "map_of kvs' (lit ''textAnnotation'') = Some (JObj ta)"
    and "map_of ta (lit ''fullText'') = map_option JStr full_text"
    and "map_of ta (lit ''blocks'') = Some (JArr bs)"
    and "list_all2 block_has_lines bs line_texts"
  shows "ocr_extract_text_from_image (Response status (Inr (JObj kvs))) =
         (case full_text of
            None \<Rightarrow> py_strip (py_join [10] (filter (\<lambda>t. t \<noteq> []) (concat line_texts)))
          | Some ft \<Rightarrow>
              if ft = []
              then py_strip (py_join [10] (filter (\<lambda>t. t \<noteq> []) (concat line_texts)))
              else py_strip ft)"
  using assms by (rule ocr_extract_well_formed)

theorem consolidated_text_preferred_witness:
  "ocr_extract_text_from_image (Response 200 (Inr hi_response)) = lit ''Hi'' \<and>
   ocr_extract_text_from_image (Response 200 (Inr blocks_response)) = lit ''Total'' @ [10] @ lit ''Due''"
proof -
  have s: "(200::nat) < 400" by simp
  have a1: "map_of [(lit ''result'', JObj hi_result)] (lit ''result'') = Some (JObj hi_result)"
    by simp
  have a2: "map_of hi_result (lit ''textAnnotation'') = Some (JObj hi_annotation)"
    by (simp add: hi_result_def)
  have a3: "map_of hi_annotation (lit ''fullText'') = map_option JStr (Some (lit ''Hi'' @ [10]))"
    by code_simp
  have a4: "map_of hi_annotation (lit ''blocks'') = Some (JArr hi_blocks)"
    by code_simp
  have a5: "list_all2 block_has_lines hi_blocks [[lit ''Hi'']]"
    by code_simp
  have b1: "map_of [(lit ''result'', JObj blocks_result)] (lit ''result'') = Some (JObj blocks_result)"
    by simp
  have b2: "map_of blocks_result (lit ''textAnnotation'') = Some (JObj blocks_annotation)"
    by (simp add: blocks_result_def)
  have b3: "map_of blocks_annotation (lit ''fullText'') = map_option JStr None"
    by code_simp
  have b4: "map_of blocks_annotation (lit ''blocks'') = Some (JArr two_blocks)"
    by code_simp
  have b5: "list_all2 block_has_lines two_blocks [[lit ''Total'', []], [lit ''Due'']]"
    by code_simp
  have c1: "py_strip (lit ''Hi'' @ [10]) = lit ''Hi''" by code_simp
  have c2: "py_strip (py_join [10] (filter (\<lambda>t. t \<noteq> []) (concat [[lit ''Total'', []], [lit ''Due'']])))
            = lit ''Total'' @ [10] @ lit ''Due''" by code_simp
  have d: "lit ''Hi'' @ [10] \<noteq> []" by simp
  show ?thesis
    using consolidated_text_preferred[OF s a1 a2 a3 a4 a5]
      consolidated_text_preferred[OF s b1 b2 b3 b4 b5] c1 c2 d
    by (simp add: hi_response_def blocks_response_def)
qed

text \<open>
  C8 as it is written fails where the consolidated field has whitespace at an end: the
  field of this response is \<open>Hi\<close> and a newline, and the extractor returns \<open>Hi\<close>.
\<close>

theorem consolidated_text_stripped_counterexample:
  "map_of hi_annotation (lit ''fullText'') = Some (JStr (lit ''Hi'' @ [10])) \<and>
   ocr_extract_text_from_image (Response 200 (Inr hi_response)) \<noteq> lit ''Hi'' @ [10]"
  by code_simp

text \<open>
  C7, as the code has it. The rules-based extractor gives pairwise different results for
  a rejected credential, a network failure and a response without text. The vision-API
  extractor gives one result, the empty string, for every exception and for a response
  without annotations.
\<close>

theorem rules_based_failures_distinct:
  assumes "auth_failure a" and "network_failure n" and "no_text t"
  shows "distinct [ocr_extract_text_from_image a, ocr_extract_text_from_image n,
                   ocr_extract_text_from_image t] \<and>
         (\<forall>e. vision_extract_text_from_image (VisionRaised e) =
               vision_extract_text_from_image (TextAnnotations []))"
proof -
  have a: "ocr_extract_text_from_image a =
             lit ''Error: IAM token expired. Please refresh your token.'' \<or>
           ocr_extract_text_from_image a =
             lit ''Error: Authentication failed. Please check your IAM token.''"
    using assms(1)
    by (cases a rule: auth_failure.cases) (simp_all add: ocr_extract_text_from_image_def)
  have n: "ocr_extract_text_from_image n = lit ''Error: Network error while processing image.''"
    using assms(2)
    by (cases n rule: network_failure.cases) (simp_all add: ocr_extract_text_from_image_def)
  have t: "ocr_extract_text_from_image t = []"
    using assms(3) by (cases t rule: no_text.cases) (simp_all add: ocr_extract_ok)
  have v: "vision_extract_text_from_image (VisionRaised e) =
           vision_extract_text_from_image (TextAnnotations [])" for e
    by (simp add: vision_extract_text_from_image_def)
  show ?thesis using a n t v by (auto simp: lit_def)
qed

theorem rules_based_failures_distinct_witness:
  "auth_failure (Response 401 (Inl OtherException)) \<and>
   network_failure (Raised RequestException) \<and>
   no_text (Response 200 (Inr empty_response)) \<and>
   distinct [ocr_extract_text_from_image (Response 401 (Inl OtherException)),
             ocr_extract_text_from_image (Raised RequestException),
             ocr_extract_text_from_image (Response 200 (Inr empty_response))]"
proof -
  have h1: "auth_failure (Response 401 (Inl OtherException))" by simp
  have h2: "network_failure (Raised RequestException)" by simp
  have h3: "no_text (Response 200 (Inr empty_response))" by code_simp
  show ?thesis
    using rules_based_failures_distinct[OF h1 h2 h3] h1 h2 h3 by blast
qed

text \<open>
  C7 as it is written fails on the vision-API extractor: a rejected credential, an
  unreachable service and a response without annotations all give the empty string.
\<close>

theorem vision_failures_alike_counterexample:
  "vision_extract_text_from_image (VisionRaised Unauthenticated) =
     vision_extract_text_from_image (VisionRaised ServiceUnavailable) \<and>
   vision_extract_text_from_image (VisionRaised Unauthenticated) =
     vision_extract_text_from_image (TextAnnotations [])"
  by (simp add: vision_extract_text_from_image_def)

section \<open>Properties of the tag heuristics\<close>

lemma sample_runtime_laws: "lower_laws sample_runtime"
proof -
  have i: "sample_lower_cp (sample_lower_cp c) = sample_lower_cp c" for c
    by (simp add: sample_lower_cp_def)
  have a: "map sample_lower_cp s = map ascii_lower s" if "list_all (\<lambda>c. c < 128) s" for s
    using that by (induction s) (auto simp: sample_lower_cp_def ascii_lower_def)
  show ?thesis
    by (simp add: lower_laws_def sample_runtime_def i a)
qed

lemma hashtag_shape:
  "h \<in> set (re_findall_hashtags w s) \<Longrightarrow> py_slice_from1 h \<noteq> []"
  by (induction w s rule: re_findall_hashtags.induct)
     (auto simp: py_slice_from1_def split: if_splits)

lemma tag_patterns_names:
  "list_all (\<lambda>(tag, patterns).
      list_all (\<lambda>c. c < 128) tag \<and> map ascii_lower tag = tag \<and> tag \<noteq> []) tag_patterns"
  by code_simp

lemma tag_keywords_names:
  "list_all (\<lambda>(tag, keywords).
      list_all (\<lambda>c. c < 128) tag \<and> map ascii_lower tag = tag \<and> tag \<noteq> []) tag_keywords"
  by code_simp

lemma screenshot_name:
  "list_all (\<lambda>c. c < 128) (lit ''screenshot'') \<and>
   map ascii_lower (lit ''screenshot'') = lit ''screenshot'' \<and> lit ''screenshot'' \<noteq> []"
  by code_simp

lemma ascii_name_lower:
  assumes "lower_laws U" and "list_all (\<lambda>c. c < 128) t" and "map ascii_lower t = t"
  shows "str_lower U t = t"
  using assms by (simp add: lower_laws_def)

lemma lowered_distinct:
  assumes "\<forall>t \<in> set ts. str_lower U t = t"
  shows "no_case_duplicates U (list_of_set ts)"
proof -
  have "map (str_lower U) (remdups ts) = remdups ts"
    using assms by (intro map_idI) simp
  then show ?thesis by (simp add: no_case_duplicates_def list_of_set_def)
qed

lemma extract_tags_clean:
  assumes "lower_laws U"
  shows "no_case_duplicates U (extract_tags U c) \<and> [] \<notin> set (extract_tags U c) \<and>
         list_all (\<lambda>t. str_lower U t = t) (extract_tags U c)"
proof (cases "c = [] \<or> py_startswith c (lit ''Error:'')")
  case True
  then show ?thesis by (auto simp: extract_tags_def no_case_duplicates_def)
next
  case False
  define cats where "cats = map fst (filter (\<lambda>(tag, patterns).
      list_ex (\<lambda>pattern. py_in pattern (str_lower U c)) patterns) tag_patterns)"
  define hs where
    "hs = map (\<lambda>tag. str_lower U (py_slice_from1 tag)) (re_findall_hashtags (re_w U) c)"
  have e: "extract_tags U c = list_of_set (cats @ hs)"
    using False by (simp add: extract_tags_def cats_def hs_def Let_def)
  have c1: "str_lower U t = t \<and> t \<noteq> []" if "t \<in> set cats" for t
    using that tag_patterns_names ascii_name_lower[OF assms, of t]
    by (auto simp: cats_def list_all_iff)
  have c2: "str_lower U t = t \<and> t \<noteq> []" if "t \<in> set hs" for t
    using that assms by (auto simp: hs_def lower_laws_def dest: hashtag_shape)
  have all: "\<forall>t \<in> set (cats @ hs). str_lower U t = t" using c1 c2 by auto
  then have "no_case_duplicates U (extract_tags U c)" unfolding e by (rule lowered_distinct)
  moreover have "[] \<notin> set (extract_tags U c)"
    using c1 c2 by (auto simp: e list_of_set_def)
  moreover have "list_all (\<lambda>t. str_lower U t = t) (extract_tags U c)"
    using all by (simp add: e list_of_set_def list_all_iff)
  ultimately show ?thesis by simp
qed

lemma generate_tags_clean:
  assumes "lower_laws U"
  shows "no_case_duplicates U (generate_tags_from_text U c) \<and>
         [] \<notin> set (generate_tags_from_text U c) \<and>
         list_all (\<lambda>t. str_lower U t = t) (generate_tags_from_text U c)"
proof -
  define cats where "cats = (if c = [] then [] else map fst (filter (\<lambda>(tag, keywords).
      list_ex (\<lambda>keyword. py_in keyword (str_lower U c)) keywords) tag_keywords))"
  have e: "generate_tags_from_text U c = list_of_set (lit ''screenshot'' # cats)"
    unfolding generate_tags_from_text_def cats_def Let_def list_of_set_def
    by (cases "c = []") simp_all
  have s: "str_lower U (lit ''screenshot'') = lit ''screenshot'' \<and> lit ''screenshot'' \<noteq> []"
    using screenshot_name ascii_name_lower[OF assms, of "lit ''screenshot''"] by blast
  have c1: "str_lower U t = t \<and> t \<noteq> []" if "t \<in> set cats" for t
  proof -
    from that obtain kws where "(t, kws) \<in> set tag_keywords"
      by (auto simp: cats_def split: if_splits)
    then have "list_all (\<lambda>c. c < 128) t \<and> map ascii_lower t = t \<and> t \<noteq> []"
      using tag_keywords_names by (auto simp: list_all_iff)
    then show ?thesis using ascii_name_lower[OF assms, of t] by blast
  qed
  have all: "\<forall>t \<in> set (lit ''screenshot'' # cats). str_lower U t = t \<and> t \<noteq> []"
    using s c1 by simp
  then have "\<forall>t \<in> set (lit ''screenshot'' # cats). str_lower U t = t" by blast
  then have "no_case_duplicates U (generate_tags_from_text U c)"
    unfolding e by (rule lowered_distinct)
  moreover have "[] \<notin> set (generate_tags_from_text U c)"
    using all unfolding e list_of_set_def by (metis set_remdups)
  moreover have "list_all (\<lambda>t. str_lower U t = t) (generate_tags_from_text U c)"
    using all unfolding e list_of_set_def list_all_iff by (metis set_remdups)
  ultimately show ?thesis by blast
qed

lemma screenshot_tag: "lit ''screenshot'' \<in> set (generate_tags_from_text U text)"
  by (simp add: generate_tags_from_text_def list_of_set_def Let_def)

lemma stripped_tags_nonempty: "[] \<notin> snd ` set (stripped_tags i ss)"
  by (auto simp: stripped_tags_def)

lemma tag_rows_strings:
  "tag_rows i xs = Inr rows \<Longrightarrow> \<exists>ss. xs = map JStr ss \<and> rows = stripped_tags i ss"
proof (induction xs arbitrary: rows)
  case Nil
  then show ?case by (simp add: stripped_tags_def)
next
  case (Cons x xs)
  from Cons.prems obtain s where x: "x = JStr s"
    by (cases x) simp_all
  from Cons.prems x obtain rows' where r: "tag_rows i xs = Inr rows'"
    by (cases "tag_rows i xs") simp_all
  from Cons.IH[OF r] obtain ss where ss: "xs = map JStr ss" "rows' = stripped_tags i ss"
    by blast
  have a: "x # xs = map JStr (s # ss)" using x ss by simp
  have b: "rows = stripped_tags i (s # ss)"
    using Cons.prems x r ss by (auto simp: stripped_tags_def split: if_splits)
  show ?case using a b by (intro exI[of _ "s # ss"]) simp
qed

lemma tag_rows_of_strings: "tag_rows i (map JStr ss) = Inr (stripped_tags i ss)"
  by (induction ss) (simp_all add: stripped_tags_def)

lemma tag_data_strings:
  assumes "tag_data_of i j = Inr rows" and "rows \<noteq> []"
  shows "\<exists>ss. bind_exc (py_getitem j (lit ''tags'')) py_iter = Inr (map JStr ss) \<and>
              rows = stripped_tags i ss"
proof -
  obtain tags where g: "py_get j (lit ''tags'') JNull = Inr tags"
    using assms(1) by (cases "py_get j (lit ''tags'') JNull") (simp_all add: tag_data_of_def)
  have t: "py_truthy tags"
    using assms g by (auto simp: tag_data_of_def split: if_splits)
  obtain tags' where gi: "py_getitem j (lit ''tags'') = Inr tags'"
    using assms(1) g t by (cases "py_getitem j (lit ''tags'')") (simp_all add: tag_data_of_def)
  obtain xs where it: "py_iter tags' = Inr xs"
    using assms(1) g t gi by (cases "py_iter tags'") (simp_all add: tag_data_of_def)
  have "tag_rows i xs = Inr rows"
    using assms(1) g t gi it by (simp add: tag_data_of_def)
  then obtain ss where "xs = map JStr ss" "rows = stripped_tags i ss"
    using tag_rows_strings by blast
  then show ?thesis using gi it by auto
qed

lemma save_note_to_db_tags:
  assumes "InsertTags ts \<in> set (fst (save_note_to_db r u j url))"
  shows "\<exists>i ids ss. notes_insert r = Inserted (i # ids) \<and>
           bind_exc (py_getitem j (lit ''tags'')) py_iter = Inr (map JStr ss) \<and>
           ts = stripped_tags i ss"
  using assms unfolding save_note_to_db_def Let_def
  by (auto split: sum.splits insert_result.splits list.splits if_splits prod.splits
           dest: tag_data_strings)

section \<open>Properties of the pipelines\<close>

lemma ocr_photo_failed:
  assumes "ocr_extraction_failed r"
  shows "persisted (ocr_handle_photo U r) = []"
  using assms
  by (auto simp: ocr_extraction_failed_def ocr_handle_photo_def persisted_def Let_def
           split: option.splits)

lemma ocr_document_failed:
  assumes "ocr_extraction_failed r"
  shows "persisted (ocr_handle_document U r) = []"
  using assms
  by (auto simp: ocr_extraction_failed_def ocr_handle_document_def persisted_def Let_def
           split: option.splits)

lemma ocr_photo_failed_last:
  assumes "ocr_extraction_failed r" "download r \<noteq> None"
  shows "last (ocr_handle_photo U r) =
         Message (if ocr_extract_text_from_image (post r) = [] then CouldNotExtract
                  else ExtractionError (ocr_extract_text_from_image (post r)))"
  using assms
  by (auto simp: ocr_extraction_failed_def ocr_handle_photo_def Let_def
           split: option.splits)

lemma vision_failed:
  assumes "vision_extraction_failed r"
  shows "persisted (vision_handle_photo U r) = []"
  using assms
  by (auto simp: vision_extraction_failed_def vision_handle_photo_def persisted_def Let_def
           split: option.splits)

lemma vision_failed_last:
  assumes "vision_extraction_failed r" "download r \<noteq> None"
  shows "last (vision_handle_photo U r) = Message CouldNotExtract"
  using assms
  by (auto simp: vision_extraction_failed_def vision_handle_photo_def Let_def
           split: option.splits)

lemma ai_failed:
  assumes "ai_analysis_failed r \<or> ai_analysis_empty r"
  shows "notes_saved (ai_handle_image r) = []"
  using assms
  by (auto simp: ai_analysis_failed_def ai_analysis_empty_def ai_handle_image_def
                 notes_saved_def Let_def
           split: option.splits)

lemma ai_failed_put:
  assumes "ai_analysis_failed r \<or> ai_analysis_empty r"
  shows "persisted (ai_handle_image r) =
         (case download r of
            None \<Rightarrow> []
          | Some image_data \<Rightarrow> [Put (ai_filename (user_id r) (now r)) image_data])"
  using assms
  by (auto simp: ai_analysis_failed_def ai_analysis_empty_def ai_handle_image_def
                 persisted_def Let_def
           split: option.splits)

lemma ai_failed_last:
  assumes "ai_analysis_failed r \<or> ai_analysis_empty r" "download r \<noteq> None"
    "\<not> no_url (ai_upload_image_to_supabase (storage r))"
  shows "last (ai_handle_image r) = Message AnalysisFailed"
  using assms
  by (auto simp: ai_analysis_failed_def ai_analysis_empty_def ai_handle_image_def
                 no_url_def Let_def
           split: option.splits)

lemma ocr_photo_saved:
  "Save n \<in> set (ocr_handle_photo U r) \<Longrightarrow> \<exists>c. note_tags n = extract_tags U c"
  by (auto simp: ocr_handle_photo_def ocr_process_note_def Let_def
           split: option.splits if_splits)

lemma ocr_document_saved:
  "Save n \<in> set (ocr_handle_document U r) \<Longrightarrow> \<exists>c. note_tags n = extract_tags U c"
  by (auto simp: ocr_handle_document_def ocr_process_note_def Let_def
           split: option.splits if_splits)

lemma vision_saved:
  "Save n \<in> set (vision_handle_photo U r) \<Longrightarrow> \<exists>c. note_tags n = generate_tags_from_text U c"
  by (auto simp: vision_handle_photo_def Let_def split: option.splits if_splits)

lemma ai_tags:
  assumes "InsertTags ts \<in> set (ai_handle_image r)"
  shows "\<exists>j i ids ss. analysis r = Some j \<and> notes_insert r = Inserted (i # ids) \<and>
           bind_exc (py_getitem j (lit ''tags'')) py_iter = Inr (map JStr ss) \<and>
           ts = stripped_tags i ss"
proof -
  have "\<exists>u j url. analysis r = Some j \<and>
          InsertTags ts \<in> set (fst (save_note_to_db r u j url))"
    using assms unfolding ai_handle_image_def Let_def
    by (auto split: option.splits if_splits prod.splits) (metis fst_conv)+
  then show ?thesis using save_note_to_db_tags by blast
qed

text \<open>
  The other direction for the AI variant: when the run gets as far as the insert into
  \<open>notes\<close> and the backend's tags are strings of which one is not blank, the tags
  inserted are exactly the stripped ones.
\<close>

lemma tag_data_of_strings:
  assumes "map_of kvs (lit ''tags'') = Some (JArr (map JStr ss))"
    and "stripped_tags i ss \<noteq> []"
  shows "tag_data_of i (JObj kvs) = Inr (stripped_tags i ss)"
proof -
  have "ss \<noteq> []" using assms(2) by (auto simp: stripped_tags_def)
  then show ?thesis
    using assms(1) by (simp add: tag_data_of_def tag_rows_of_strings)
qed

lemma ai_tags_inserted:
  assumes "download r = Some image_data"
    and "ai_upload_image_to_supabase (storage r) = Some url" and "url \<noteq> []"
    and "analysis r = Some (JObj kvs)"
    and "map_of kvs (lit ''title'') = Some t" and "map_of kvs (lit ''content'') = Some c"
    and "map_of kvs (lit ''tags'') = Some (JArr (map JStr ss))"
    and "notes_insert r = Inserted (i # ids)"
    and "stripped_tags i ss \<noteq> []"
  shows "InsertTags (stripped_tags i ss) \<in> set (ai_handle_image r)"
proof -
  have ne: "py_truthy (JObj kvs)" using assms(5) by (cases kvs) simp_all
  have td: "tag_data_of i (JObj kvs) = Inr (stripped_tags i ss)"
    using assms(7,9) by (rule tag_data_of_strings)
  have sv: "save_note_to_db r u (JObj kvs) url =
            ([InsertNote \<lparr>row_user_id = user_id r, row_username = u, row_title = t,
                          row_content = c, row_image_url = url\<rparr>,
              InsertTags (stripped_tags i ss)], \<not> insert_tags_raises r)" for u
    by (simp add: save_note_to_db_def Let_def assms(5,6,8,9) td)
  show ?thesis
    using ne by (simp add: ai_handle_image_def Let_def assms(1,2,3,4) sv)
qed

lemma ocr_document_failed_last:
  assumes "ocr_extraction_failed r" and "mime_type r = lit ''application/pdf''"
    and "download r \<noteq> None"
  shows "last (ocr_handle_document U r) = Message CouldNotExtract"
  using assms
  by (auto simp: ocr_extraction_failed_def ocr_handle_document_def Let_def
           split: option.splits)

text \<open>The keys of the rules-based and of the AI variant do not read the microseconds.\<close>

lemma ocr_photo_filename_microsecond:
  "ocr_photo_filename uid (d\<lparr>microsecond := m\<rparr>) = ocr_photo_filename uid d"
  by (simp add: ocr_photo_filename_def strftime_date_def strftime_time_def)

lemma ocr_pdf_filename_microsecond:
  "ocr_pdf_filename uid (d\<lparr>microsecond := m\<rparr>) = ocr_pdf_filename uid d"
  by (simp add: ocr_pdf_filename_def strftime_date_def strftime_time_def)

lemma ai_filename_microsecond:
  "ai_filename uid (d\<lparr>microsecond := m\<rparr>) = ai_filename uid d"
  by (simp add: ai_filename_def strftime_date_def strftime_time_def)

text \<open>The key of the vision-API variant differs whenever the UUIDs do.\<close>

lemma vision_filename_uuid:
  assumes "length u = length u'" and "u \<noteq> u'"
  shows "vision_filename u e \<noteq> vision_filename u' e'"
  using assms by (simp add: vision_filename_def)

text \<open>
  A text of whitespace is handled alike by every runtime that obeys the laws of
  \<open>str.lower()\<close>: the vision-API variant saves it.
\<close>

lemma blank_text_saved_any_runtime:
  assumes "lower_laws U"
  shows "notes_saved (vision_handle_photo U blank_text_run) = [Save blank_note]"
proof -
  have a: "list_all (\<lambda>c. c < 128) [32, 10::nat]" by simp
  have l: "str_lower U [32, 10] = str_lower sample_runtime [32, 10]"
    using assms sample_runtime_laws a unfolding lower_laws_def by metis
  have e: "vision_extract_text_from_image (detect blank_text_run) = [32, 10]"
    by code_simp
  have d: "download blank_text_run = Some [255, 216, 255]"
    by code_simp
  have "vision_handle_photo U blank_text_run = vision_handle_photo sample_runtime blank_text_run"
    by (simp add: vision_handle_photo_def Let_def d e l generate_title_from_text_def
          generate_tags_from_text_def)
  moreover have "notes_saved (vision_handle_photo sample_runtime blank_text_run) = [Save blank_note]"
    by code_simp
  ultimately show ?thesis by simp
qed

text \<open>
  C1, as the code has it. When the extraction of the rules-based or of the vision-API
  variant fails or yields the empty string, the run makes no storage upload and no
  insert. A photo run that got its file ends with the message of that failure, the
  extractor's error text or that no text was found; a PDF run ends with the one message
  it has for both; a vision-API run ends with the message that no text was found. In
  the AI variant the upload precedes the analysis: when the analysis call fails, or
  answers with an empty JSON value, the run makes no insert, its only persisting call is
  the upload already made, and a run that got that far ends with the message of the
  failed analysis.
\<close>

theorem extraction_failure_no_persistence:
  "(ocr_extraction_failed r \<longrightarrow>
      persisted (ocr_handle_photo U r) = [] \<and> persisted (ocr_handle_document U r) = [] \<and>
      (download r \<noteq> None \<longrightarrow>
         last (ocr_handle_photo U r) =
         Message (if ocr_extract_text_from_image (post r) = [] then CouldNotExtract
                  else ExtractionError (ocr_extract_text_from_image (post r)))) \<and>
      (mime_type r = lit ''application/pdf'' \<and> download r \<noteq> None \<longrightarrow>
         last (ocr_handle_document U r) = Message CouldNotExtract)) \<and>
   (vision_extraction_failed r \<longrightarrow>
      persisted (vision_handle_photo U r) = [] \<and>
      (download r \<noteq> None \<longrightarrow> last (vision_handle_photo U r) = Message CouldNotExtract)) \<and>
   (ai_analysis_failed r \<or> ai_analysis_empty r \<longrightarrow>
      notes_saved (ai_handle_image r) = [] \<and>
      persisted (ai_handle_image r) =
        (case download r of
           None \<Rightarrow> []
         | Some image_data \<Rightarrow> [Put (ai_filename (user_id r) (now r)) image_data]) \<and>
      (download r \<noteq> None \<and> \<not> no_url (ai_upload_image_to_supabase (storage r)) \<longrightarrow>
         last (ai_handle_image r) = Message AnalysisFailed))"
  using ocr_photo_failed[of r U] ocr_document_failed[of r U] ocr_photo_failed_last[of r U]
    ocr_document_failed_last[of r U]
    vision_failed[of r U] vision_failed_last[of r U] ai_failed[of r] ai_failed_put[of r]
    ai_failed_last[of r]
  by blast

theorem extraction_failure_no_persistence_witness:
  "ocr_extraction_failed backends_down_run \<and> vision_extraction_failed backends_down_run \<and>
   ai_analysis_failed backends_down_run \<and> ai_analysis_empty empty_object_run \<and>
   persisted (ocr_handle_photo sample_runtime backends_down_run) = [] \<and>
   persisted (ocr_handle_document sample_runtime backends_down_run) = [] \<and>
   last (ocr_handle_photo sample_runtime backends_down_run) =
     Message (ExtractionError (lit ''Error: Network error while processing image.'')) \<and>
   last (ocr_handle_document sample_runtime backends_down_run) = Message CouldNotExtract \<and>
   persisted (vision_handle_photo sample_runtime backends_down_run) = [] \<and>
   last (vision_handle_photo sample_runtime backends_down_run) = Message CouldNotExtract \<and>
   notes_saved (ai_handle_image backends_down_run) = [] \<and>
   last (ai_handle_image backends_down_run) = Message AnalysisFailed \<and>
   notes_saved (ai_handle_image empty_object_run) = [] \<and>
   last (ai_handle_image empty_object_run) = Message AnalysisFailed"
proof -
  have h1: "ocr_extraction_failed backends_down_run" by code_simp
  have h2: "vision_extraction_failed backends_down_run" by code_simp
  have h3: "ai_analysis_failed backends_down_run" by code_simp
  have h4: "download backends_down_run \<noteq> None" by code_simp
  have h5: "\<not> no_url (ai_upload_image_to_supabase (storage backends_down_run))" by code_simp
  have h6: "mime_type backends_down_run = lit ''application/pdf''" by code_simp
  have e: "ocr_extract_text_from_image (post backends_down_run) =
           lit ''Error: Network error while processing image.''" by code_simp
  have ne: "lit ''Error: Network error while processing image.'' \<noteq> []"
    by (simp add: lit_def)
  have g1: "ai_analysis_empty empty_object_run" by code_simp
  have g2: "download empty_object_run \<noteq> None" by code_simp
  have g3: "\<not> no_url (ai_upload_image_to_supabase (storage empty_object_run))" by code_simp
  show ?thesis
    using extraction_failure_no_persistence[of backends_down_run sample_runtime]
      extraction_failure_no_persistence[of empty_object_run sample_runtime]
      h1 h2 h3 h4 h5 h6 e ne g1 g2 g3
    by simp
qed

text \<open>
  C1 as it is written fails in the AI variant, twice. The analysis of the first run
  fails, and the image has been uploaded before. The analysis of the second run yields
  the empty string as content, and the run inserts a note with that empty body.
\<close>

theorem ai_upload_before_analysis_counterexample:
  "ai_analysis_failed analysis_failed_run \<and>
   persisted (ai_handle_image analysis_failed_run) =
     [Put (lit ''4220250101120000.jpg'') [255, 216, 255]] \<and>
   py_getitem empty_content_analysis (lit ''content'') = Inr (JStr []) \<and>
   notes_saved (ai_handle_image empty_content_run) = [InsertNote empty_content_row] \<and>
   last (ai_handle_image empty_content_run) = Message NoteCreated"
  by code_simp

text \<open>
  C2 fails on the code. The same user sends two photos within one second: the two runs
  read different clocks and carry different bytes, and both the rules-based variant, under
  any runtime, and the AI variant upload them under one key.
\<close>

theorem same_second_same_key:
  "user_id good_run = user_id second_photo_run \<and>
   now good_run \<noteq> now second_photo_run \<and>
   download good_run \<noteq> download second_photo_run \<and>
   put_keys (ocr_handle_photo U good_run) =
     [lit ''screenshot_42_20250101_120000.jpg''] \<and>
   put_keys (ocr_handle_photo U second_photo_run) =
     [lit ''screenshot_42_20250101_120000.jpg''] \<and>
   put_keys (ai_handle_image good_run) = [lit ''4220250101120000.jpg''] \<and>
   put_keys (ai_handle_image second_photo_run) = [lit ''4220250101120000.jpg'']"
  by code_simp

text \<open>
  C3 fails on the code. The text detection of the vision-API variant returns a space and
  a newline; the run does not report that no text was found, and saves a note whose body
  is that whitespace.
\<close>

theorem blank_text_is_saved:
  "py_strip [32, 10] = [] \<and>
   vision_extract_text_from_image (detect blank_text_run) = [32, 10] \<and>
   notes_saved (vision_handle_photo sample_runtime blank_text_run) = [Save blank_note] \<and>
   last (vision_handle_photo sample_runtime blank_text_run) = Message NoteCreated"
  by code_simp

text \<open>
  C6, as the code has it. Under every runtime that obeys the laws of \<open>str.lower()\<close>,
  the tags that the two heuristic variants compute and save are lowercase, hold no two
  entries that are equal up to case, and hold no empty string. The tags that the AI
  variant inserts are the tags of the backend, each stripped of the whitespace at its
  ends, in their order, without those that strip to nothing: they hold no empty string,
  and they are not deduplicated.
\<close>

theorem tags_without_duplicates_or_blanks:
  assumes "lower_laws U"
  shows "no_case_duplicates U (extract_tags U c) \<and> [] \<notin> set (extract_tags U c) \<and>
         list_all (\<lambda>t. str_lower U t = t) (extract_tags U c) \<and>
         no_case_duplicates U (generate_tags_from_text U c) \<and>
         [] \<notin> set (generate_tags_from_text U c) \<and>
         list_all (\<lambda>t. str_lower U t = t) (generate_tags_from_text U c) \<and>
         (\<forall>n. Save n \<in> set (ocr_handle_photo U r) \<or> Save n \<in> set (ocr_handle_document U r) \<or>
              Save n \<in> set (vision_handle_photo U r) \<longrightarrow>
              no_case_duplicates U (note_tags n) \<and> [] \<notin> set (note_tags n)) \<and>
         (\<forall>ts. InsertTags ts \<in> set (ai_handle_image r) \<longrightarrow>
               [] \<notin> snd ` set ts \<and>
               (\<exists>j i ids ss. analysis r = Some j \<and> notes_insert r = Inserted (i # ids) \<and>
                  bind_exc (py_getitem j (lit ''tags'')) py_iter = Inr (map JStr ss) \<and>
                  ts = stripped_tags i ss)) \<and>
         (\<forall>image_data url kvs t b ss i ids.
            download r = Some image_data \<and>
            ai_upload_image_to_supabase (storage r) = Some url \<and> url \<noteq> [] \<and>
            analysis r = Some (JObj kvs) \<and>
            map_of kvs (lit ''title'') = Some t \<and> map_of kvs (lit ''content'') = Some b \<and>
            map_of kvs (lit ''tags'') = Some (JArr (map JStr ss)) \<and>
            notes_insert r = Inserted (i # ids) \<and> stripped_tags i ss \<noteq> [] \<longrightarrow>
            InsertTags (stripped_tags i ss) \<in> set (ai_handle_image r))"
proof -
  have h: "no_case_duplicates U (note_tags n) \<and> [] \<notin> set (note_tags n)"
    if "Save n \<in> set (ocr_handle_photo U r) \<or> Save n \<in> set (ocr_handle_document U r) \<or>
        Save n \<in> set (vision_handle_photo U r)" for n
    using that extract_tags_clean[OF assms] generate_tags_clean[OF assms]
    by (metis ocr_photo_saved ocr_document_saved vision_saved)
  have a: "[] \<notin> snd ` set ts \<and>
           (\<exists>j i ids ss. analysis r = Some j \<and> notes_insert r = Inserted (i # ids) \<and>
              bind_exc (py_getitem j (lit ''tags'')) py_iter = Inr (map JStr ss) \<and>
              ts = stripped_tags i ss)"
    if "InsertTags ts \<in> set (ai_handle_image r)" for ts
    using ai_tags[OF that] stripped_tags_nonempty by blast
  have b: "InsertTags (stripped_tags i ss) \<in> set (ai_handle_image r)"
    if "download r = Some image_data \<and>
        ai_upload_image_to_supabase (storage r) = Some url \<and> url \<noteq> [] \<and>
        analysis r = Some (JObj kvs) \<and>
        map_of kvs (lit ''title'') = Some t \<and> map_of kvs (lit ''content'') = Some b \<and>
        map_of kvs (lit ''tags'') = Some (JArr (map JStr ss)) \<and>
        notes_insert r = Inserted (i # ids) \<and> stripped_tags i ss \<noteq> []"
    for image_data url kvs t b ss i ids
    using that ai_tags_inserted[of r image_data url kvs t b ss i ids] by blast
  show ?thesis
    using extract_tags_clean[OF assms, of c] generate_tags_clean[OF assms, of c] h a b
    by blast
qed

theorem tags_without_duplicates_or_blanks_witness:
  "lower_laws sample_runtime \<and>
   Save good_vision_note \<in> set (vision_handle_photo sample_runtime good_run) \<and>
   no_case_duplicates sample_runtime (note_tags good_vision_note) \<and>
   [] \<notin> set (note_tags good_vision_note) \<and>
   no_case_duplicates sample_runtime (extract_tags sample_runtime (lit ''Bug in #Auth, see #todo'')) \<and>
   InsertTags [(7, lit ''Auth''), (7, lit ''auth'')] \<in> set (ai_handle_image good_run) \<and>
   stripped_tags 7 [lit '' Auth'', lit ''auth '', lit '' ''] = [(7, lit ''Auth''), (7, lit ''auth'')] \<and>
   [] \<notin> snd ` set [(7::int, lit ''Auth''), (7, lit ''auth'')]"
proof -
  have h1: "Save good_vision_note \<in> set (vision_handle_photo sample_runtime good_run)"
    by code_simp
  have h2: "InsertTags [(7, lit ''Auth''), (7, lit ''auth'')] \<in> set (ai_handle_image good_run)"
    by code_simp
  have h3: "stripped_tags 7 [lit '' Auth'', lit ''auth '', lit '' ''] =
            [(7, lit ''Auth''), (7, lit ''auth'')]"
    by code_simp
  show ?thesis
    using tags_without_duplicates_or_blanks[OF sample_runtime_laws,
        of "lit ''Bug in #Auth, see #todo''" good_run]
      sample_runtime_laws h1 h2 h3
    by blast
qed

text \<open>
  C6 as it is written fails in the AI variant: the backend returns \<open>Auth\<close> and
  \<open>auth\<close>, which \<open>str.lower()\<close> makes equal, and both are inserted as tags of the
  one note.
\<close>

theorem ai_tags_case_duplicates_counterexample:
  "InsertTags [(7, lit ''Auth''), (7, lit ''auth'')] \<in> set (ai_handle_image good_run) \<and>
   map ascii_lower (lit ''Auth'') = map ascii_lower (lit ''auth'') \<and>
   \<not> no_case_duplicates sample_runtime (map snd [(7::int, lit ''Auth''), (7, lit ''auth'')])"
  by code_simp

text \<open>
  C9. The rules-based extractor reports every failure as a string that starts with
  \<open>Error:\<close>. For every text that starts with \<open>Error:\<close>, whether the extractor made it
  up or read it off the screenshot, \<open>generate_title\<close> returns \<open>Untitled Screenshot\<close>,
  \<open>extract_tags\<close> returns the empty list, and a run that extracts it makes no storage
  upload and no insert.
\<close>

theorem error_marker_aborts:
  assumes "py_startswith t (lit ''Error:'')"
  shows "generate_title t m = lit ''Untitled Screenshot'' \<and> extract_tags U t = [] \<and>
         (\<forall>r. ocr_extract_text_from_image (post r) = t \<longrightarrow>
              persisted (ocr_handle_photo U r) = [] \<and>
              persisted (ocr_handle_document U r) = []) \<and>
         (\<forall>p. ocr_call_failed p \<longrightarrow>
              py_startswith (ocr_extract_text_from_image p) (lit ''Error:''))"
proof -
  have "persisted (ocr_handle_photo U r) = [] \<and> persisted (ocr_handle_document U r) = []"
    if "ocr_extract_text_from_image (post r) = t" for r
  proof -
    have "ocr_extraction_failed r"
      using that assms by (simp add: ocr_extraction_failed_def)
    then show ?thesis by (simp add: ocr_photo_failed ocr_document_failed)
  qed
  then show ?thesis
    using assms ocr_call_failed_prefix
    by (simp add: generate_title_def extract_tags_def)
qed

theorem error_marker_aborts_witness:
  "py_startswith (lit ''Error: disk full'') (lit ''Error:'') \<and>
   ocr_extract_text_from_image (post error_screenshot_run) = lit ''Error: disk full'' \<and>
   generate_title (lit ''Error: disk full'') default_max_length = lit ''Untitled Screenshot'' \<and>
   extract_tags sample_runtime (lit ''Error: disk full'') = [] \<and>
   persisted (ocr_handle_photo sample_runtime error_screenshot_run) = [] \<and>
   persisted (ocr_handle_document sample_runtime error_screenshot_run) = [] \<and>
   ocr_call_failed (Raised RequestException) \<and>
   py_startswith (ocr_extract_text_from_image (Raised RequestException)) (lit ''Error:'')"
proof -
  have h1: "py_startswith (lit ''Error: disk full'') (lit ''Error:'')" by code_simp
  have h2: "ocr_extract_text_from_image (post error_screenshot_run) = lit ''Error: disk full''"
    by code_simp
  have h3: "ocr_call_failed (Raised RequestException)" by simp
  show ?thesis
    using error_marker_aborts[OF h1, of default_max_length sample_runtime] h1 h2 h3 by blast
qed

text \<open>
  C10. \<open>generate_tags_from_text\<close> returns a list that holds the tag \<open>screenshot\<close> for
  every text, the empty one included, and every note that the vision-API variant saves
  carries that tag.
\<close>

theorem screenshot_tag_always:
  "lit ''screenshot'' \<in> set (generate_tags_from_text U text) \<and>
   lit ''screenshot'' \<in> set (generate_tags_from_text U []) \<and>
   (\<forall>n. Save n \<in> set (vision_handle_photo U r) \<longrightarrow> lit ''screenshot'' \<in> set (note_tags n))"
  using screenshot_tag by (metis vision_saved)

theorem screenshot_tag_always_witness:
  "Save good_vision_note \<in> set (vision_handle_photo sample_runtime good_run) \<and>
   lit ''screenshot'' \<in> set (note_tags good_vision_note) \<and>
   lit ''screenshot'' \<in> set (generate_tags_from_text sample_runtime (lit ''Total: $120''))"
proof -
  have h: "Save good_vision_note \<in> set (vision_handle_photo sample_runtime good_run)"
    by code_simp
  show ?thesis
    using screenshot_tag_always[of sample_runtime "lit ''Total: $120''" good_run] h by blast
qed

end
